theory Spec2Isabelle
  imports Complex_Main
begin

section \<open>JavaScript values\<close>

text \<open>
  Both Lambda handlers receive their event as a deserialised JSON document and read
  properties off it. A value is one of JavaScript's \<open>undefined\<close>, \<open>null\<close>, a
  boolean, a number, a string, an array or an object. A number is a finite one
  (\<open>Num\<close>), \<open>Infinity\<close>, \<open>-Infinity\<close> or \<open>NaN\<close>: \<open>JSON.parse\<close> turns a
  literal beyond the range of the doubles, such as \<open>1e999\<close>, into \<open>Infinity\<close>. A
  finite number is a rational; the rounding of IEEE doubles is not modelled. An object
  is the list of its own properties (a key that occurs twice is read at its first
  occurrence).
\<close>

datatype js =
    Undefined
  | Null
  | Bool bool
  | Num rat
  | Infinity
  | NegInfinity
  | NaN
  | Str string
  | Arr "js list"
  | Obj "(string \<times> js) list"

text \<open>A thrown \<open>Error\<close> object: its constructor's name and its \<open>message\<close>.\<close>

datatype js_error = JsError (kind: string) (message: string)

text \<open>
  The operand of \<open>!x\<close> and of \<open>x || y\<close> is coerced with ToBoolean: \<open>undefined\<close>,
  \<open>null\<close>, \<open>false\<close>, \<open>0\<close>, \<open>NaN\<close> and the empty string are falsy, every
  other number, every array and every object is truthy.
\<close>

fun truthy :: "js \<Rightarrow> bool" where
  "truthy Undefined = False"
| "truthy Null = False"
| "truthy (Bool b) = b"
| "truthy (Num n) = (n \<noteq> 0)"
| "truthy Infinity = True"
| "truthy NegInfinity = True"
| "truthy NaN = False"
| "truthy (Str s) = (s \<noteq> [])"
| "truthy (Arr xs) = True"
| "truthy (Obj kvs) = True"

text \<open>
  Property access \<open>v.k\<close>, also the one a destructuring pattern \<open>{ k } = v\<close> makes.
  On \<open>undefined\<close> and \<open>null\<close> it throws a TypeError. The handlers read the keys
  \<open>body\<close>, \<open>target_url\<close>, \<open>target_body\<close>, \<open>schedule_time_utc\<close>, \<open>url\<close>,
  \<open>Name\<close> and \<open>ScheduleArn\<close> only; none of them is a property that primitives or
  arrays inherit, so there the access gives \<open>undefined\<close>. The wording of the
  TypeError's message is the engine's; nothing depends on it.
\<close>

fun get_property :: "js \<Rightarrow> string \<Rightarrow> js_error + js" where
  "get_property Undefined k =
     Inl (JsError ''TypeError'' (''Cannot read properties of undefined (reading '' @ k @ '')''))"
| "get_property Null k =
     Inl (JsError ''TypeError'' (''Cannot read properties of null (reading '' @ k @ '')''))"
| "get_property (Obj kvs) k = Inr (case map_of kvs k of None \<Rightarrow> Undefined | Some v \<Rightarrow> v)"
| "get_property v k = Inr Undefined"

subsection \<open>Integers in decimal\<close>

text \<open>
  A template literal renders an integral number below \<open>10^21\<close> in plain decimal
  digits. The handlers render \<open>Date.now()\<close> (milliseconds since the epoch) and an HTTP
  status this way.
\<close>

definition digit :: "nat \<Rightarrow> char" where
  "digit d = char_of (48 + d)"

fun dec_nat :: "nat \<Rightarrow> string" where
  "dec_nat n = (if n < 10 then [digit n] else dec_nat (n div 10) @ [digit (n mod 10)])"

declare dec_nat.simps [simp del]

definition decimal :: "int \<Rightarrow> string" where
  "decimal i = (if i < 0 then CHR ''-'' # dec_nat (nat (- i)) else dec_nat (nat i))"

text \<open>Reading a decimal numeral back; used to show that rendering loses nothing.\<close>

definition digit_value :: "char \<Rightarrow> nat" where
  "digit_value c = of_char c - 48"

definition undec_nat :: "string \<Rightarrow> nat" where
  "undec_nat s = foldl (\<lambda>a c. 10 * a + digit_value c) 0 s"

definition undecimal :: "string \<Rightarrow> int" where
  "undecimal s = (case s of
       [] \<Rightarrow> 0
     | c # r \<Rightarrow> if c = CHR ''-'' then - int (undec_nat r) else int (undec_nat s))"

section \<open>The world outside the handlers\<close>

text \<open>
  \<open>parseISO\<close> returns a \<open>Date\<close>, which is either a time value in milliseconds or
  the Invalid Date, whose \<open>getTime()\<close> is \<open>NaN\<close>.
\<close>

datatype js_date = Invalid_Date | Date int

datatype FlexibleTimeWindowMode = OFF | FLEXIBLE

datatype ActionAfterCompletion = NONE | DELETE

text \<open>The input of \<open>CreateScheduleCommand\<close>, as the setter fills it in.\<close>

record command =
  Name :: string
  ScheduleExpression :: string
  ScheduleExpressionTimezone :: string
  FlexibleTimeWindow_Mode :: FlexibleTimeWindowMode
  Target_Arn :: js
  Target_RoleArn :: js
  Target_Input :: string
  ActionAfterCompletion :: ActionAfterCompletion
  State :: string
  Description :: string
  GroupName :: js

text \<open>
  What \<open>fetch\<close> is called with, and the response it resolves to. \<open>response.ok\<close> is
  defined by the Fetch standard as a status in the range 200 to 299. Reading the body
  with \<open>response.text()\<close> can itself fail.
\<close>

record fetch_request =
  req_url :: js
  req_method :: string
  req_headers :: "(string \<times> string) list"
  req_body :: string

record fetch_response =
  status :: nat
  text_result :: "js_error + string"

definition ok :: "fetch_response \<Rightarrow> bool" where
  "ok r = (200 \<le> status r \<and> status r \<le> 299)"

text \<open>
  Everything the handlers call but do not define: the built-ins \<open>JSON.parse\<close>,
  \<open>JSON.stringify\<close>, ToString (of a value that is not a string) and \<open>Date.now()\<close>,
  the date-fns functions \<open>parseISO\<close> and \<open>formatISO\<close> (the latter on a valid
  date), the environment \<open>process.env\<close>, the scheduler client's \<open>send\<close> and what
  the global \<open>fetch\<close> does with a request once it has its URL (\<open>transport\<close>). A
  call that can throw returns a sum, \<open>Inl\<close> the error thrown. ToString throws a
  TypeError on an object that has no callable \<open>toString\<close> or \<open>valueOf\<close>, such as
  the parse of \<open>{"toString": 1}\<close>. \<open>JSON.parse\<close> is applied to a value as the handler
  does: it coerces its argument to a string first, so that on \<open>undefined\<close> it throws a
  SyntaxError. Theorems hold for every world.
\<close>

record world =
  JSON_parse :: "js \<Rightarrow> js_error + js"
  JSON_stringify :: "js \<Rightarrow> string"
  ToString :: "js \<Rightarrow> js_error + string"
  Date_now :: int
  parseISO :: "js \<Rightarrow> js_error + js_date"
  formatISO :: "int \<Rightarrow> string"
  process_env :: "string \<Rightarrow> string option"
  send :: "command \<Rightarrow> js_error + js"
  transport :: "fetch_request \<Rightarrow> js_error + fetch_response"

text \<open>
  The value substituted for \<open>${v}\<close> in a template literal: the string itself, or
  ToString of any other value.
\<close>

definition template_value :: "world \<Rightarrow> js \<Rightarrow> js_error + string" where
  "template_value w v = (case v of Str s \<Rightarrow> Inr s | _ \<Rightarrow> ToString w v)"

text \<open>
  The global \<open>fetch(url, init)\<close>: a \<open>url\<close> that is not a string is first coerced
  to one with ToString, and the promise is rejected with the error if that throws.
\<close>

definition fetch :: "world \<Rightarrow> fetch_request \<Rightarrow> js_error + fetch_response" where
  "fetch w req =
     (case template_value w (req_url req) of
        Inl e \<Rightarrow> Inl e
      | Inr href \<Rightarrow> transport w req)"

text \<open>The object a handler returns.\<close>

record response =
  statusCode :: nat
  body :: string

text \<open>
  A run of a handler: the calls it made to the outside (schedules sent, or HTTP
  requests made), in order, and how it ended: \<open>Inr\<close> the response returned,
  \<open>Inl\<close> the error that escaped. Console output is not modelled.
\<close>

type_synonym 'c run = "'c list \<times> (js_error + response)"

abbreviation calls :: "'c run \<Rightarrow> 'c list" where
  "calls r \<equiv> fst r"

abbreviation outcome :: "'c run \<Rightarrow> js_error + response" where
  "outcome r \<equiv> snd r"

section \<open>The setter\<close>

text \<open>
  \<open>src/unnamed/part_000\<close> holds two versions of \<open>lambda/setter/index.js\<close>, one
  after the other: an earlier one (lines 1 to 84) and the current one (lines 84 to 183),
  which reads its configuration from \<open>process.env\<close>. Line numbers are those of that
  file. The two versions share everything up to the \<open>try\<close> block.
\<close>

text \<open>
  Lines 94 to 101 (and 11 to 17 of the earlier version): \<open>JSON.parse(event.body)\<close>
  inside \<open>try\<close>; whatever is thrown there, the event itself becomes the request.
\<close>

definition request_body :: "world \<Rightarrow> js \<Rightarrow> js" where
  "request_body w event =
     (case get_property event ''body'' of
        Inl e \<Rightarrow> event
      | Inr b \<Rightarrow> (case JSON_parse w b of Inl e \<Rightarrow> event | Inr v \<Rightarrow> v))"

text \<open>\<open>const { target_url, target_body, schedule_time_utc } = requestBody\<close>, outside any \<open>try\<close>.\<close>

definition request_fields :: "js \<Rightarrow> js_error + (js \<times> js \<times> js)" where
  "request_fields requestBody =
     (case get_property requestBody ''target_url'' of
        Inl e \<Rightarrow> Inl e
      | Inr target_url \<Rightarrow>
     (case get_property requestBody ''target_body'' of
        Inl e \<Rightarrow> Inl e
      | Inr target_body \<Rightarrow>
     (case get_property requestBody ''schedule_time_utc'' of
        Inl e \<Rightarrow> Inl e
      | Inr schedule_time_utc \<Rightarrow> Inr (target_url, target_body, schedule_time_utc))))"

definition missing_parameters :: "world \<Rightarrow> response" where
  "missing_parameters w =
     \<lparr>statusCode = 400,
      body = JSON_stringify w (Str
        ''Missing required parameters in input (target_url, target_body, schedule_time_utc)'')\<rparr>"

definition invalid_time :: js_error where
  \<open>invalid_time = JsError ''Error''
     ''Invalid schedule_time_utc format. Please use ISO 8601, e.g., "2025-12-31T23:59:59Z" (offset also allowed).''\<close>

text \<open>Line 32 of the earlier version: the same message without its final full stop.\<close>

definition invalid_time_v1 :: js_error where
  \<open>invalid_time_v1 = JsError ''Error''
     ''Invalid schedule_time_utc format. Please use ISO 8601, e.g., "2025-12-31T23:59:59Z" (offset also allowed)''\<close>

text \<open>The \<open>catch\<close> of both versions: any error of the \<open>try\<close> block becomes a 500.\<close>

definition error_creating :: "world \<Rightarrow> js_error \<Rightarrow> response" where
  "error_creating w error =
     \<lparr>statusCode = 500,
      body = JSON_stringify w (Str (''Error creating schedule: '' @ message error))\<rparr>"

text \<open>\<open>`oneTime-${Date.now()}`\<close>\<close>

definition scheduleName :: "int \<Rightarrow> string" where
  "scheduleName now = ''oneTime-'' @ decimal now"

text \<open>\<open>`One-time webhook call to ${target_url}`\<close>, which throws when ToString does.\<close>

definition description_of :: "world \<Rightarrow> js \<Rightarrow> js_error + string" where
  "description_of w target_url =
     (case template_value w target_url of
        Inl e \<Rightarrow> Inl e
      | Inr s \<Rightarrow> Inr (''One-time webhook call to '' @ s))"

definition lambdaInputPayload :: "js \<Rightarrow> js \<Rightarrow> js" where
  "lambdaInputPayload target_url target_body = Obj [(''url'', target_url), (''body'', target_body)]"

text \<open>
  Lines 145 to 161: the argument of \<open>new CreateScheduleCommand\<close>. Of its properties
  only the description can throw while the object is built.
\<close>

definition create_schedule_command ::
  "world \<Rightarrow> string \<Rightarrow> string \<Rightarrow> js \<Rightarrow> js \<Rightarrow> js \<Rightarrow> js \<Rightarrow> js \<Rightarrow> js_error + command" where
  "create_schedule_command w name formattedScheduleTime workerLambdaArn schedulerExecutionRoleArn
       schedulerGroupName target_url target_body =
     (case description_of w target_url of
        Inl e \<Rightarrow> Inl e
      | Inr description \<Rightarrow>
          Inr \<lparr>Name = name,
               ScheduleExpression = ''at('' @ formattedScheduleTime @ '')'',
               ScheduleExpressionTimezone = ''UTC'',
               FlexibleTimeWindow_Mode = OFF,
               Target_Arn = workerLambdaArn,
               Target_RoleArn = schedulerExecutionRoleArn,
               Target_Input = JSON_stringify w (lambdaInputPayload target_url target_body),
               ActionAfterCompletion = DELETE,
               State = ''ENABLED'',
               Description = description,
               GroupName = schedulerGroupName\<rparr>)"

text \<open>
  \<open>process.env.K\<close>: the string the variable is set to, or \<open>undefined\<close>.
\<close>

definition env_var :: "world \<Rightarrow> string \<Rightarrow> js" where
  "env_var w k = (case process_env w k of None \<Rightarrow> Undefined | Some s \<Rightarrow> Str s)"

text \<open>\<open>a || b\<close>\<close>

definition js_or :: "js \<Rightarrow> js \<Rightarrow> js" where
  "js_or a b = (if truthy a then a else b)"

text \<open>Lines 167 to 174: the 200 response, built from the properties of what \<open>send\<close> resolved to.\<close>

definition created :: "world \<Rightarrow> js \<Rightarrow> js_error + response" where
  "created w resp =
     (case get_property resp ''Name'' of
        Inl e \<Rightarrow> Inl e
      | Inr name \<Rightarrow>
     (case get_property resp ''ScheduleArn'' of
        Inl e \<Rightarrow> Inl e
      | Inr arn \<Rightarrow>
          Inr \<lparr>statusCode = 200,
               body = JSON_stringify w (Obj
                 [(''message'', Str ''Schedule created successfully!''),
                  (''scheduleName'', name),
                  (''scheduleArn'', arn)])\<rparr>))"

text \<open>The two errors of lines 128 to 133.\<close>

definition worker_arn_not_set :: js_error where
  "worker_arn_not_set = JsError ''Error''
     ''WORKER_LAMBDA_ARN environment variable not set. Deployment might be incomplete or misconfigured.''"

definition role_arn_not_set :: js_error where
  "role_arn_not_set = JsError ''Error''
     ''SCHEDULER_EXECUTION_ROLE_ARN environment variable not set. Deployment might be incomplete or misconfigured.''"

text \<open>
  Lines 114 to 174, the body of the \<open>try\<close> block of the current version: the run is
  the commands sent and either the response returned or the error thrown.
\<close>

definition try_schedule :: "world \<Rightarrow> js \<Rightarrow> js \<Rightarrow> js \<Rightarrow> command list \<times> (js_error + response)" where
  "try_schedule w target_url target_body schedule_time_utc =
     (case parseISO w schedule_time_utc of
        Inl e \<Rightarrow> ([], Inl e)
      | Inr Invalid_Date \<Rightarrow> ([], Inl invalid_time)
      | Inr (Date t) \<Rightarrow>
          (let formattedScheduleTime = take 19 (formatISO w t);
               workerLambdaArn = env_var w ''WORKER_LAMBDA_ARN'';
               schedulerGroupName = js_or (env_var w ''SCHEDULER_GROUP_NAME'') (Str ''default'');
               schedulerExecutionRoleArn = env_var w ''SCHEDULER_EXECUTION_ROLE_ARN''
           in if \<not> truthy workerLambdaArn then ([], Inl worker_arn_not_set)
              else if \<not> truthy schedulerExecutionRoleArn then ([], Inl role_arn_not_set)
              else
                (case create_schedule_command w (scheduleName (Date_now w)) formattedScheduleTime
                        workerLambdaArn schedulerExecutionRoleArn schedulerGroupName
                        target_url target_body of
                   Inl e \<Rightarrow> ([], Inl e)
                 | Inr cmd \<Rightarrow>
                     (case send w cmd of
                        Inl e \<Rightarrow> ([cmd], Inl e)
                      | Inr resp \<Rightarrow> ([cmd], created w resp)))))"

text \<open>
  Lines 103 to 183: what the handler does with the request once it has one: the
  destructuring, the presence check, and the \<open>try\<close> block under its \<open>catch\<close>.
\<close>

definition schedule_request :: "world \<Rightarrow> js \<Rightarrow> command run" where
  "schedule_request w requestBody =
     (case request_fields requestBody of
        Inl e \<Rightarrow> ([], Inl e)
      | Inr (target_url, target_body, schedule_time_utc) \<Rightarrow>
          if \<not> truthy target_url \<or> \<not> truthy target_body \<or> \<not> truthy schedule_time_utc then
            ([], Inr (missing_parameters w))
          else
            (case try_schedule w target_url target_body schedule_time_utc of
               (sent, Inl error) \<Rightarrow> (sent, Inr (error_creating w error))
             | (sent, Inr r) \<Rightarrow> (sent, Inr r)))"

text \<open>The handler of the current version of \<open>lambda/setter/index.js\<close> (lines 91 to 184).\<close>

definition setter_handler :: "world \<Rightarrow> js \<Rightarrow> command run" where
  "setter_handler w event = schedule_request w (request_body w event)"

text \<open>
  The earlier version (lines 8 to 84) has the same shape, but its \<open>try\<close> block names
  \<open>workerLambdaArn\<close>, \<open>schedulerExecutionRoleArn\<close> and \<open>schedulerGroupName\<close>, which
  nothing in the module binds. Evaluating the first of them, while the argument of
  \<open>new CreateScheduleCommand\<close> is built, throws a ReferenceError before anything is
  sent.
\<close>

definition try_schedule_v1 :: "world \<Rightarrow> js \<Rightarrow> js \<Rightarrow> js \<Rightarrow> command list \<times> (js_error + response)" where
  "try_schedule_v1 w target_url target_body schedule_time_utc =
     (case parseISO w schedule_time_utc of
        Inl e \<Rightarrow> ([], Inl e)
      | Inr Invalid_Date \<Rightarrow> ([], Inl invalid_time_v1)
      | Inr (Date t) \<Rightarrow> ([], Inl (JsError ''ReferenceError'' ''workerLambdaArn is not defined'')))"

definition schedule_request_v1 :: "world \<Rightarrow> js \<Rightarrow> command run" where
  "schedule_request_v1 w requestBody =
     (case request_fields requestBody of
        Inl e \<Rightarrow> ([], Inl e)
      | Inr (target_url, target_body, schedule_time_utc) \<Rightarrow>
          if \<not> truthy target_url \<or> \<not> truthy target_body \<or> \<not> truthy schedule_time_utc then
            ([], Inr (missing_parameters w))
          else
            (case try_schedule_v1 w target_url target_body schedule_time_utc of
               (sent, Inl error) \<Rightarrow> (sent, Inr (error_creating w error))
             | (sent, Inr r) \<Rightarrow> (sent, Inr r)))"

definition setter_handler_v1 :: "world \<Rightarrow> js \<Rightarrow> command run" where
  "setter_handler_v1 w event = schedule_request_v1 w (request_body w event)"

section \<open>The worker\<close>

text \<open>
  Lines 20 to 32 of \<open>lambda/worker/index.js\<close>: the one call of \<open>fetch\<close>. The
  event's \<open>body\<close> is written \<open>body'\<close>, apart from the \<open>body\<close> of a response.
\<close>

definition webhook_request :: "world \<Rightarrow> js \<Rightarrow> js \<Rightarrow> fetch_request" where
  "webhook_request w url body' =
     \<lparr>req_url = url,
      req_method = ''POST'',
      req_headers = [(''Content-Type'', ''application/json''), (''X-Scheduler-Invocation'', ''true'')],
      req_body = JSON_stringify w body'\<rparr>"

definition webhook_failed :: "fetch_response \<Rightarrow> string \<Rightarrow> js_error" where
  "webhook_failed r errorText = JsError ''Error''
     (''Webhook call failed with status '' @ dec_nat (status r) @ '' and body: '' @ errorText)"

definition webhook_called :: "world \<Rightarrow> fetch_response \<Rightarrow> string \<Rightarrow> response" where
  "webhook_called w r responseData =
     \<lparr>statusCode = 200,
      body = JSON_stringify w (Obj
        [(''message'', Str ''Webhook called successfully''),
         (''statusCode'', Num (of_nat (status r))),
         (''responseBody'', Str responseData)])\<rparr>"

text \<open>
  Lines 19 to 49, the body of the worker's \<open>try\<close> block. Line 25 logs
  \<open>`Making POST request to ${url} ...`\<close> before the call of \<open>fetch\<close>; the log is not
  kept, but the template literal throws when ToString of \<open>url\<close> does, and then
  \<open>fetch\<close> is never called.
\<close>

definition try_deliver :: "world \<Rightarrow> js \<Rightarrow> js \<Rightarrow> fetch_request list \<times> (js_error + response)" where
  "try_deliver w url body' =
     (case template_value w url of
        Inl e \<Rightarrow> ([], Inl e)
      | Inr logged \<Rightarrow>
     (let req = webhook_request w url body'
      in (case fetch w req of
            Inl e \<Rightarrow> ([req], Inl e)
          | Inr r \<Rightarrow>
              if \<not> ok r then
                (case text_result r of
                   Inl e \<Rightarrow> ([req], Inl e)
                 | Inr errorText \<Rightarrow> ([req], Inl (webhook_failed r errorText)))
              else
                (case text_result r of
                   Inl e \<Rightarrow> ([req], Inl e)
                 | Inr responseData \<Rightarrow> ([req], Inr (webhook_called w r responseData))))))"

definition missing_url_or_body :: "world \<Rightarrow> response" where
  "missing_url_or_body w =
     \<lparr>statusCode = 400, body = JSON_stringify w (Str ''Missing URL or body in payload'')\<rparr>"

definition error_calling :: "world \<Rightarrow> js_error \<Rightarrow> response" where
  "error_calling w error =
     \<lparr>statusCode = 500,
      body = JSON_stringify w (Str (''Error calling webhook: '' @ message error))\<rparr>"

text \<open>The handler of \<open>lambda/worker/index.js\<close> (lines 6 to 57).\<close>

definition worker_handler :: "world \<Rightarrow> js \<Rightarrow> fetch_request run" where
  "worker_handler w event =
     (case get_property event ''url'' of
        Inl e \<Rightarrow> ([], Inl e)
      | Inr url \<Rightarrow>
     (case get_property event ''body'' of
        Inl e \<Rightarrow> ([], Inl e)
      | Inr body' \<Rightarrow>
          if \<not> truthy url \<or> \<not> truthy body' then ([], Inr (missing_url_or_body w))
          else
            (case try_deliver w url body' of
               (made, Inl error) \<Rightarrow> (made, Inr (error_calling w error))
             | (made, Inr r) \<Rightarrow> (made, Inr r))))"

text \<open>The status code a run ended with, if it returned a response.\<close>

definition status_of :: "'c run \<Rightarrow> nat option" where
  "status_of r = (case outcome r of Inl e \<Rightarrow> None | Inr resp \<Rightarrow> Some (statusCode resp))"

section \<open>An example world\<close>

text \<open>
  One concrete world and a few requests, at which the theorems below are evaluated.
  Its serialiser covers documents whose finite numbers are integral and whose strings
  need no escape, and like \<open>JSON.stringify\<close> it writes a number that is not finite as
  \<open>null\<close>; its parser knows, of the strings, the document \<open>null\<close> and the two
  schedule inputs of the examples only, and like \<open>JSON.parse\<close> it throws a
  SyntaxError on \<open>undefined\<close> (which is coerced to the text \<open>undefined\<close>); its
  ToString covers strings and objects: an object with a property \<open>toString\<close> of its
  own, which in a JSON document is never a function, cannot be converted; its date
  functions know two instants, the first seconds of 2030 and of 2020 (UTC), and take
  every other string for unparseable; its clock reads the first millisecond of 2026; its
  scheduler accepts every schedule and answers with the schedule's ARN; its webhook
  answers 200.
\<close>

definition quoted :: "string \<Rightarrow> string" where
  "quoted s = CHR 0x22 # s @ [CHR 0x22]"

fun commas :: "string list \<Rightarrow> string" where
  "commas [] = []"
| "commas [x] = x"
| "commas (x # y # ys) = x @ '','' @ commas (y # ys)"

fun example_stringify :: "js \<Rightarrow> string" where
  "example_stringify Undefined = []"
| "example_stringify Null = ''null''"
| "example_stringify (Bool b) = (if b then ''true'' else ''false'')"
| "example_stringify (Num n) = decimal \<lfloor>n\<rfloor>"
| "example_stringify Infinity = ''null''"
| "example_stringify NegInfinity = ''null''"
| "example_stringify NaN = ''null''"
| "example_stringify (Str s) = quoted s"
| "example_stringify (Arr xs) = ''['' @ commas (map example_stringify xs) @ '']''"
| "example_stringify (Obj kvs) =
     ''{'' @ commas (map (\<lambda>kv. quoted (fst kv) @ '':'' @ example_stringify (snd kv))
                      (filter (\<lambda>kv. snd kv \<noteq> Undefined) kvs)) @ ''}''"

definition syntax_error :: js_error where
  "syntax_error = JsError ''SyntaxError'' ''Unexpected token in JSON''"

definition example_parse :: "js \<Rightarrow> js_error + js" where
  \<open>example_parse v =
     (case v of
        Null \<Rightarrow> Inr Null
      | Bool b \<Rightarrow> Inr (Bool b)
      | Num n \<Rightarrow> Inr (Num n)
      | Str s \<Rightarrow>
          if s = ''null'' then Inr Null
          else if s = ''{"url":"https://example.com/hook","body":{"a":1}}'' then
            Inr (Obj [(''url'', Str ''https://example.com/hook''), (''body'', Obj [(''a'', Num 1)])])
          else if s = ''{"url":"https://example.com/hook","body":null}'' then
            Inr (Obj [(''url'', Str ''https://example.com/hook''), (''body'', Null)])
          else Inl syntax_error
      | _ \<Rightarrow> Inl syntax_error)\<close>

definition cannot_convert :: js_error where
  "cannot_convert = JsError ''TypeError'' ''Cannot convert object to primitive value''"

definition example_ToString :: "js \<Rightarrow> js_error + string" where
  "example_ToString v =
     (case v of
        Str s \<Rightarrow> Inr s
      | Obj kvs \<Rightarrow>
          (case map_of kvs ''toString'' of
             None \<Rightarrow> Inr ''[object Object]''
           | Some f \<Rightarrow> Inl cannot_convert)
      | _ \<Rightarrow> Inr (example_stringify v))"

definition example_parseISO :: "js \<Rightarrow> js_error + js_date" where
  "example_parseISO v =
     (if v = Str ''2030-01-01T00:00:00Z'' then Inr (Date 1893456000000)
      else if v = Str ''2020-01-01T00:00:00Z'' then Inr (Date 1577836800000)
      else Inr Invalid_Date)"

definition example_formatISO :: "int \<Rightarrow> string" where
  "example_formatISO t =
     (if t = 1893456000000 then ''2030-01-01T00:00:00Z''
      else if t = 1577836800000 then ''2020-01-01T00:00:00Z''
      else ''1970-01-01T00:00:00Z'')"

definition example_env :: "string \<Rightarrow> string option" where
  "example_env = map_of
     [(''WORKER_LAMBDA_ARN'', ''arn:aws:lambda:us-east-1:123456789012:function:WebhookWorker''),
      (''SCHEDULER_GROUP_NAME'', ''default''),
      (''SCHEDULER_EXECUTION_ROLE_ARN'', ''arn:aws:iam::123456789012:role/SchedulerExecutionRole'')]"

definition example_send :: "command \<Rightarrow> js_error + js" where
  "example_send c = Inr (Obj
     [(''ScheduleArn'', Str (''arn:aws:scheduler:us-east-1:123456789012:schedule/''
         @ (case GroupName c of Str g \<Rightarrow> g | _ \<Rightarrow> ''default'') @ ''/'' @ Name c))])"

definition example_transport :: "fetch_request \<Rightarrow> js_error + fetch_response" where
  "example_transport r = Inr \<lparr>status = 200, text_result = Inr ''ok''\<rparr>"

definition example_world :: world where
  "example_world =
     \<lparr>JSON_parse = example_parse,
      JSON_stringify = example_stringify,
      ToString = example_ToString,
      Date_now = 1767225600000,
      parseISO = example_parseISO,
      formatISO = example_formatISO,
      process_env = example_env,
      send = example_send,
      transport = example_transport\<rparr>"

text \<open>
  A request as the setter receives it when invoked directly (the event has no
  \<open>body\<close>, so the event itself is the request), and its variants.
\<close>

definition request :: "js \<Rightarrow> js \<Rightarrow> js \<Rightarrow> js" where
  "request target_url target_body schedule_time_utc =
     Obj [(''target_url'', target_url),
          (''target_body'', target_body),
          (''schedule_time_utc'', schedule_time_utc)]"

definition example_request :: js where
  "example_request =
     request (Str ''https://example.com/hook'') (Obj [(''a'', Num 1)]) (Str ''2030-01-01T00:00:00Z'')"

text \<open>The schedule the setter sends for \<open>example_request\<close> in the example world, under a given name.\<close>

definition example_command :: "world \<Rightarrow> string \<Rightarrow> command" where
  "example_command w name =
     \<lparr>Name = name,
      ScheduleExpression = ''at(2030-01-01T00:00:00)'',
      ScheduleExpressionTimezone = ''UTC'',
      FlexibleTimeWindow_Mode = OFF,
      Target_Arn = Str ''arn:aws:lambda:us-east-1:123456789012:function:WebhookWorker'',
      Target_RoleArn = Str ''arn:aws:iam::123456789012:role/SchedulerExecutionRole'',
      Target_Input = JSON_stringify w
        (Obj [(''url'', Str ''https://example.com/hook''), (''body'', Obj [(''a'', Num 1)])]),
      ActionAfterCompletion = DELETE,
      State = ''ENABLED'',
      Description = ''One-time webhook call to https://example.com/hook'',
      GroupName = Str ''default''\<rparr>"

text \<open>The example world one millisecond later.\<close>

definition later_world :: world where
  "later_world = example_world\<lparr>Date_now := 1767225600001\<rparr>"

definition other_request :: js where
  "other_request =
     request (Str ''https://example.org/other'') (Arr [Num 2]) (Str ''2020-01-01T00:00:00Z'')"

text \<open>Variants of the example request, and events the handlers can be invoked with.\<close>

definition bad_time_request :: js where
  "bad_time_request =
     request (Str ''https://example.com/hook'') (Obj [(''a'', Num 1)]) (Str ''tomorrow at noon'')"

definition bad_url_request :: js where
  "bad_url_request = request (Str ''not a url'') (Obj [(''a'', Num 1)]) (Str ''2030-01-01T00:00:00Z'')"


definition past_request :: js where
  "past_request =
     request (Str ''https://example.com/hook'') (Obj [(''a'', Num 1)]) (Str ''2020-01-01T00:00:00Z'')"

text \<open>
  A request whose \<open>target_body\<close> is the literal \<open>1e999\<close>, which \<open>JSON.parse\<close> reads
  as \<open>Infinity\<close>; a request whose \<open>target_url\<close> is the object \<open>{"toString": 1}\<close>;
  a request without \<open>target_url\<close>.
\<close>

definition overflow_request :: js where
  "overflow_request = request (Str ''https://example.com/hook'') Infinity (Str ''2030-01-01T00:00:00Z'')"

definition unprintable_url_request :: js where
  "unprintable_url_request =
     request (Obj [(''toString'', Num 1)]) (Obj [(''a'', Num 1)]) (Str ''2030-01-01T00:00:00Z'')"

definition no_url_request :: js where
  "no_url_request =
     Obj [(''target_body'', Obj [(''a'', Num 1)]), (''schedule_time_utc'', Str ''2030-01-01T00:00:00Z'')]"

text \<open>A Function URL request whose body is the JSON document \<open>null\<close>.\<close>

definition null_body_event :: js where
  "null_body_event = Obj [(''body'', Str ''null'')]"

text \<open>The event the scheduler hands the worker for \<open>example_request\<close>: the parsed input of the schedule.\<close>

definition example_event :: js where
  "example_event = Obj [(''url'', Str ''https://example.com/hook''), (''body'', Obj [(''a'', Num 1)])]"

text \<open>The event the worker is handed for \<open>overflow_request\<close>: the body has become \<open>null\<close>.\<close>

definition null_payload_event :: js where
  "null_payload_event = Obj [(''url'', Str ''https://example.com/hook''), (''body'', Null)]"

text \<open>
  Worlds in which the webhook call fails: \<open>fetch\<close> rejects; the server answers 503;
  the connection breaks while the body of a 200 response is read. And the example world
  with one environment variable unset.
\<close>

definition refusing_world :: world where
  "refusing_world = example_world\<lparr>transport := \<lambda>r. Inl (JsError ''TypeError'' ''fetch failed'')\<rparr>"

definition busy_world :: world where
  "busy_world = example_world
     \<lparr>transport := \<lambda>r. Inr \<lparr>status = 503, text_result = Inr ''Service Unavailable''\<rparr>\<rparr>"

definition truncating_world :: world where
  "truncating_world = example_world
     \<lparr>transport := \<lambda>r. Inr \<lparr>status = 200, text_result = Inl (JsError ''TypeError'' ''terminated'')\<rparr>\<rparr>"

definition without_env :: "string \<Rightarrow> world" where
  "without_env k = example_world\<lparr>process_env := example_env(k := None)\<rparr>"

section \<open>Rendering integers\<close>

lemma digit_value_digit: "d < 10 \<Longrightarrow> digit_value (digit d) = d"
  by (simp add: digit_value_def digit_def)

lemma undec_nat_snoc: "undec_nat (s @ [c]) = 10 * undec_nat s + digit_value c"
  by (simp add: undec_nat_def)

lemma undec_nat_dec_nat: "undec_nat (dec_nat n) = n"
proof (induction n rule: dec_nat.induct)
  case (1 n)
  show ?case
  proof (cases "n < 10")
    case True
    then show ?thesis by (subst dec_nat.simps) (simp add: undec_nat_def digit_value_digit)
  next
    case False
    with 1 have "undec_nat (dec_nat (n div 10)) = n div 10" by simp
    with False show ?thesis
      by (subst dec_nat.simps) (simp add: undec_nat_snoc digit_value_digit)
  qed
qed

lemma digit_not_minus: "d < 10 \<Longrightarrow> digit d \<noteq> CHR ''-''"
proof
  assume d: "d < 10" and "digit d = CHR ''-''"
  then have "(of_char (digit d) :: nat) = of_char (CHR ''-'')" by simp
  with d show False by (simp add: digit_def)
qed

lemma dec_nat_head: "\<exists>c r. dec_nat n = c # r \<and> c \<noteq> CHR ''-''"
proof (induction n rule: dec_nat.induct)
  case (1 n)
  show ?case
  proof (cases "n < 10")
    case True
    then show ?thesis by (subst dec_nat.simps) (simp add: digit_not_minus)
  next
    case False
    with 1 obtain c r where "dec_nat (n div 10) = c # r" "c \<noteq> CHR ''-''" by blast
    with False show ?thesis by (subst dec_nat.simps) simp
  qed
qed

lemma undecimal_decimal: "undecimal (decimal i) = i"
proof (cases "i < 0")
  case True
  then show ?thesis by (simp add: undecimal_def decimal_def undec_nat_dec_nat)
next
  case False
  obtain c r where cr: "dec_nat (nat i) = c # r" "c \<noteq> CHR ''-''"
    using dec_nat_head by blast
  have "undec_nat (dec_nat (nat i)) = nat i" by (rule undec_nat_dec_nat)
  with cr False show ?thesis by (simp add: undecimal_def decimal_def)
qed

lemma decimal_inject: "decimal i = decimal j \<longleftrightarrow> i = j"
  by (metis undecimal_decimal)

lemma scheduleName_inject: "scheduleName a = scheduleName b \<longleftrightarrow> a = b"
  by (simp add: scheduleName_def decimal_inject)

text \<open>Evaluating the rendering of a numeral.\<close>

lemma dec_nat_numeral:
  "dec_nat (numeral k) =
     (if numeral k < (10::nat) then [digit (numeral k)]
      else dec_nat (numeral k div 10) @ [digit (numeral k mod 10)])"
  by (rule dec_nat.simps)

lemma dec_nat_0: "dec_nat 0 = [digit 0]"
  by (subst dec_nat.simps) simp

lemma dec_nat_1: "dec_nat 1 = [digit 1]"
  by (subst dec_nat.simps) simp

lemma dec_nat_Suc0: "dec_nat (Suc 0) = [digit 1]"
  by (subst dec_nat.simps) simp

lemmas dec_eval = dec_nat_numeral dec_nat_0 dec_nat_1 dec_nat_Suc0 digit_def char_of_def bit_0

lemma scheduleName_example: "scheduleName 1767225600000 = ''oneTime-1767225600000''"
  by (simp add: scheduleName_def decimal_def dec_eval)

section \<open>The runs of the setter\<close>

lemma status_of_simps:
  "status_of (cs, Inl e) = None"
  "status_of (cs, Inr r) = Some (statusCode r)"
  by (simp_all add: status_of_def)

lemma status_error_creating: "statusCode (error_creating w e) = 500"
  by (simp add: error_creating_def)

lemma status_missing_parameters: "statusCode (missing_parameters w) = 400"
  by (simp add: missing_parameters_def)

lemma created_status: "created w resp = Inr r \<Longrightarrow> statusCode r = 200"
  by (auto simp: created_def split: sum.splits)

lemma created_object:
  "resp \<noteq> Null \<Longrightarrow> resp \<noteq> Undefined \<Longrightarrow> \<exists>r. created w resp = Inr r"
  by (cases resp) (simp_all add: created_def)

lemma command_fields:
  assumes "create_schedule_command w n f a r g u b = Inr c"
  shows "Name c = n"
    and "ActionAfterCompletion c = DELETE"
    and "Target_Input c = JSON_stringify w (lambdaInputPayload u b)"
    and "GroupName c = g"
    and "ScheduleExpression c = ''at('' @ f @ '')''"
  using assms by (auto simp: create_schedule_command_def split: sum.splits)

lemma command_description:
  "create_schedule_command w n f a r g u b = Inr c \<Longrightarrow> \<exists>s. template_value w u = Inr s"
  by (auto simp: create_schedule_command_def description_of_def split: sum.splits)

lemma command_created:
  "template_value w u = Inr s \<Longrightarrow> \<exists>c. create_schedule_command w n f a r g u b = Inr c"
  by (simp add: create_schedule_command_def description_of_def)

lemma request_fields_request: "request_fields (request u b t) = Inr (u, b, t)"
  by (simp add: request_fields_def request_def)

text \<open>What the \<open>try\<close> block sends, and how it ends.\<close>

lemma try_schedule_calls:
  "c \<in> set (calls (try_schedule w u b t)) \<Longrightarrow>
     \<exists>d. parseISO w t = Inr (Date d)
       \<and> truthy (env_var w ''WORKER_LAMBDA_ARN'')
       \<and> truthy (env_var w ''SCHEDULER_EXECUTION_ROLE_ARN'')
       \<and> create_schedule_command w (scheduleName (Date_now w)) (take 19 (formatISO w d))
               (env_var w ''WORKER_LAMBDA_ARN'') (env_var w ''SCHEDULER_EXECUTION_ROLE_ARN'')
               (js_or (env_var w ''SCHEDULER_GROUP_NAME'') (Str ''default'')) u b = Inr c"
  by (auto simp: try_schedule_def Let_def split: sum.splits js_date.splits if_splits)

lemma try_schedule_status:
  "outcome (try_schedule w u b t) = Inr r \<Longrightarrow> statusCode r = 200"
  by (auto simp: try_schedule_def Let_def created_status split: sum.splits js_date.splits if_splits)

lemma try_schedule_returned:
  "outcome (try_schedule w u b t) = Inr r \<Longrightarrow> length (calls (try_schedule w u b t)) = 1"
  by (auto simp: try_schedule_def Let_def split: sum.splits js_date.splits if_splits)

lemma try_schedule_valid:
  assumes "parseISO w t = Inr (Date d)"
    and "truthy (env_var w ''WORKER_LAMBDA_ARN'')"
    and "truthy (env_var w ''SCHEDULER_EXECUTION_ROLE_ARN'')"
    and "template_value w u = Inr s"
  shows "\<exists>c. calls (try_schedule w u b t) = [c]
           \<and> create_schedule_command w (scheduleName (Date_now w)) (take 19 (formatISO w d))
               (env_var w ''WORKER_LAMBDA_ARN'') (env_var w ''SCHEDULER_EXECUTION_ROLE_ARN'')
               (js_or (env_var w ''SCHEDULER_GROUP_NAME'') (Str ''default'')) u b = Inr c
           \<and> outcome (try_schedule w u b t)
               = (case send w c of Inl e \<Rightarrow> Inl e | Inr resp \<Rightarrow> created w resp)"
proof -
  from command_created [OF assms(4)] obtain c
    where "create_schedule_command w (scheduleName (Date_now w)) (take 19 (formatISO w d))
               (env_var w ''WORKER_LAMBDA_ARN'') (env_var w ''SCHEDULER_EXECUTION_ROLE_ARN'')
               (js_or (env_var w ''SCHEDULER_GROUP_NAME'') (Str ''default'')) u b = Inr c"
    by blast
  with assms(1-3) show ?thesis
    by (simp add: try_schedule_def Let_def split: sum.splits)
qed

text \<open>A description that cannot be built ends the \<open>try\<close> block before anything is sent.\<close>

lemma try_schedule_unprintable:
  "template_value w u = Inl e \<Longrightarrow> calls (try_schedule w u b t) = []"
  by (auto simp: try_schedule_def Let_def create_schedule_command_def description_of_def
      split: sum.splits js_date.splits)

text \<open>The presence check in front of it.\<close>

lemma schedule_request_calls:
  "c \<in> set (calls (schedule_request w rb)) \<Longrightarrow>
     \<exists>u b t. request_fields rb = Inr (u, b, t) \<and> truthy u \<and> truthy b \<and> truthy t
       \<and> c \<in> set (calls (try_schedule w u b t))"
  by (auto simp: schedule_request_def split: sum.splits prod.splits if_splits)

lemma schedule_request_truthy:
  "request_fields rb = Inr (u, b, t) \<Longrightarrow> truthy u \<Longrightarrow> truthy b \<Longrightarrow> truthy t \<Longrightarrow>
     calls (schedule_request w rb) = calls (try_schedule w u b t)
     \<and> outcome (schedule_request w rb) =
         (case outcome (try_schedule w u b t) of
            Inl error \<Rightarrow> Inr (error_creating w error) | Inr r \<Rightarrow> Inr r)"
  by (auto simp: schedule_request_def split: sum.splits prod.splits)

lemma schedule_request_falsy:
  "request_fields rb = Inr (u, b, t) \<Longrightarrow> \<not> truthy u \<or> \<not> truthy b \<or> \<not> truthy t \<Longrightarrow>
     schedule_request w rb = ([], Inr (missing_parameters w))"
  by (auto simp: schedule_request_def)

lemma schedule_request_status:
  assumes "request_fields rb = Inr (u, b, t)"
  shows "status_of (schedule_request w rb) =
     (if \<not> truthy u \<or> \<not> truthy b \<or> \<not> truthy t then Some 400
      else case outcome (try_schedule w u b t) of Inl e \<Rightarrow> Some 500 | Inr r \<Rightarrow> Some 200)"
proof (cases "truthy u \<and> truthy b \<and> truthy t")
  case True
  with schedule_request_truthy [OF assms, of w] show ?thesis
    by (auto simp: status_of_def status_error_creating try_schedule_status split: sum.splits)
next
  case False
  with schedule_request_falsy [OF assms, of w] show ?thesis
    by (auto simp: status_of_def status_missing_parameters)
qed

lemma setter_status_cases:
  assumes "request_fields (request_body w event) = Inr (u, b, t)"
  shows "status_of (setter_handler w event) = Some 200
       \<or> status_of (setter_handler w event) = Some 400
       \<or> status_of (setter_handler w event) = Some 500"
  unfolding setter_handler_def schedule_request_status [OF assms]
  by (simp split: sum.splits)

lemma calls_v1: "calls (schedule_request_v1 w rb) = []"
  by (auto simp: schedule_request_v1_def try_schedule_v1_def
      split: sum.splits prod.splits js_date.splits)

text \<open>The clock is read for the name of the schedule only.\<close>

lemma request_body_clock: "request_body (w\<lparr>Date_now := now\<rparr>) event = request_body w event"
  by (simp add: request_body_def split: sum.splits)

lemma env_var_clock: "env_var (w\<lparr>Date_now := now\<rparr>) k = env_var w k"
  by (simp add: env_var_def)

lemma template_value_clock: "template_value (w\<lparr>Date_now := now\<rparr>) v = template_value w v"
  by (simp add: template_value_def split: js.splits)

lemma create_schedule_command_clock:
  "create_schedule_command (w\<lparr>Date_now := now\<rparr>) n f a r g u b = create_schedule_command w n f a r g u b"
  by (simp add: create_schedule_command_def description_of_def template_value_clock
        split: sum.splits)

text \<open>What a schedule that was sent tells about the request.\<close>

lemma sent_description:
  assumes "request_fields (request_body w event) = Inr (u, b, t)"
    and "c \<in> set (calls (setter_handler w event))"
  shows "truthy u" and "truthy b" and "\<exists>s. template_value w u = Inr s"
    and "Target_Input c = JSON_stringify w (lambdaInputPayload u b)"
  using assms unfolding setter_handler_def
  by (auto dest!: schedule_request_calls try_schedule_calls dest: command_description command_fields)

text \<open>
  Two runs that differ in the clock's reading only: what is sent differs in the name
  only, and when nothing is sent the runs are the same.
\<close>

lemma responses_clock:
  "missing_parameters (w\<lparr>Date_now := now\<rparr>) = missing_parameters w"
  "error_creating (w\<lparr>Date_now := now\<rparr>) e = error_creating w e"
  "created (w\<lparr>Date_now := now\<rparr>) resp = created w resp"
  by (simp_all add: missing_parameters_def error_creating_def created_def split: sum.splits)

lemma try_schedule_unsent_clock:
  "calls (try_schedule (w\<lparr>Date_now := now\<rparr>) u b t) = [] \<Longrightarrow>
     try_schedule (w\<lparr>Date_now := now'\<rparr>) u b t = try_schedule (w\<lparr>Date_now := now\<rparr>) u b t"
  by (auto simp: try_schedule_def Let_def env_var_clock create_schedule_command_def
        description_of_def template_value_clock
      split: sum.splits js_date.splits if_splits)

lemma try_schedule_sent_clock:
  "map (\<lambda>c. c\<lparr>Name := []\<rparr>) (calls (try_schedule (w\<lparr>Date_now := now\<rparr>) u b t))
     = map (\<lambda>c. c\<lparr>Name := []\<rparr>) (calls (try_schedule (w\<lparr>Date_now := now'\<rparr>) u b t))"
  by (auto simp: try_schedule_def Let_def env_var_clock create_schedule_command_def
        description_of_def template_value_clock
      split: sum.splits js_date.splits if_splits)

lemma schedule_request_unsent_clock:
  "calls (schedule_request (w\<lparr>Date_now := now\<rparr>) rb) = [] \<Longrightarrow>
     schedule_request (w\<lparr>Date_now := now'\<rparr>) rb = schedule_request (w\<lparr>Date_now := now\<rparr>) rb"
proof (cases "request_fields rb")
  case (Inl e)
  then show ?thesis by (simp add: schedule_request_def)
next
  case (Inr f)
  assume unsent: "calls (schedule_request (w\<lparr>Date_now := now\<rparr>) rb) = []"
  obtain u b t where f: "request_fields rb = Inr (u, b, t)"
    using Inr by (cases f) auto
  show ?thesis
  proof (cases "truthy u \<and> truthy b \<and> truthy t")
    case False
    with f show ?thesis by (simp add: schedule_request_falsy responses_clock)
  next
    case True
    then have tr: "truthy u" "truthy b" "truthy t" by simp_all
    from unsent schedule_request_truthy [OF f tr, of "w\<lparr>Date_now := now\<rparr>"]
    have "calls (try_schedule (w\<lparr>Date_now := now\<rparr>) u b t) = []" by simp
    then have "try_schedule (w\<lparr>Date_now := now'\<rparr>) u b t = try_schedule (w\<lparr>Date_now := now\<rparr>) u b t"
      by (rule try_schedule_unsent_clock)
    with f tr show ?thesis
      by (simp add: schedule_request_def responses_clock)
  qed
qed

lemma schedule_request_sent_clock:
  "map (\<lambda>c. c\<lparr>Name := []\<rparr>) (calls (schedule_request (w\<lparr>Date_now := now\<rparr>) rb))
     = map (\<lambda>c. c\<lparr>Name := []\<rparr>) (calls (schedule_request (w\<lparr>Date_now := now'\<rparr>) rb))"
proof (cases "request_fields rb")
  case (Inl e)
  then show ?thesis by (simp add: schedule_request_def)
next
  case (Inr f)
  obtain u b t where f: "request_fields rb = Inr (u, b, t)"
    using Inr by (cases f) auto
  show ?thesis
  proof (cases "truthy u \<and> truthy b \<and> truthy t")
    case False
    with f show ?thesis by (simp add: schedule_request_falsy)
  next
    case True
    then have tr: "truthy u" "truthy b" "truthy t" by simp_all
    from schedule_request_truthy [OF f tr, of "w\<lparr>Date_now := now\<rparr>"]
      schedule_request_truthy [OF f tr, of "w\<lparr>Date_now := now'\<rparr>"]
      try_schedule_sent_clock [where w = w and now = now and now' = now' and u = u and b = b and t = t]
    show ?thesis by simp
  qed
qed

section \<open>The runs of the worker\<close>

lemma try_deliver_calls:
  "template_value w u = Inr s \<Longrightarrow> calls (try_deliver w u b) = [webhook_request w u b]"
  by (simp add: try_deliver_def Let_def split: sum.splits)

lemma fetch_webhook_request:
  "fetch w (webhook_request w u b) =
     (case template_value w u of Inl e \<Rightarrow> Inl e | Inr s \<Rightarrow> transport w (webhook_request w u b))"
  by (simp add: fetch_def webhook_request_def split: sum.splits)

lemma try_deliver_outcome:
  "outcome (try_deliver w u b) =
     (case fetch w (webhook_request w u b) of
        Inl e \<Rightarrow> Inl e
      | Inr r \<Rightarrow>
          (case text_result r of
             Inl e \<Rightarrow> Inl e
           | Inr t \<Rightarrow> if ok r then Inr (webhook_called w r t) else Inl (webhook_failed r t)))"
  by (simp add: try_deliver_def fetch_webhook_request Let_def split: sum.splits)

lemma status_worker_responses:
  "statusCode (error_calling w e) = 500" "statusCode (webhook_called w r t) = 200"
  by (simp_all add: error_calling_def webhook_called_def)

lemma worker_truthy:
  assumes "get_property event ''url'' = Inr u" "get_property event ''body'' = Inr b"
    "truthy u" "truthy b"
  shows "outcome (worker_handler w event) =
       (case outcome (try_deliver w u b) of
          Inl error \<Rightarrow> Inr (error_calling w error) | Inr r \<Rightarrow> Inr r)"
    and "calls (worker_handler w event) = calls (try_deliver w u b)"
  using assms by (auto simp: worker_handler_def split: prod.splits sum.splits)

section \<open>The example world at work\<close>

lemmas example_defs =
  setter_handler_def schedule_request_def request_body_def request_fields_def
  request_def example_world_def example_parse_def syntax_error_def try_schedule_def
  example_parseISO_def example_formatISO_def env_var_def example_env_def js_or_def
  example_send_def created_def example_ToString_def Let_def
  create_schedule_command_def description_of_def template_value_def lambdaInputPayload_def

lemma example_request_body: "request_body example_world (request u b t) = request u b t"
  by (simp add: request_body_def request_def example_world_def example_parse_def)

lemma example_fields:
  "request_fields (request_body example_world example_request)
     = Inr (Str ''https://example.com/hook'', Obj [(''a'', Num 1)], Str ''2030-01-01T00:00:00Z'')"
  by (simp add: example_request_def example_request_body request_fields_request)

lemma example_sent:
  "example_command example_world ''oneTime-1767225600000''
     \<in> set (calls (setter_handler example_world example_request))"
  by (simp add: example_defs example_request_def example_command_def scheduleName_example)

lemma example_env_truthy:
  "truthy (env_var example_world ''WORKER_LAMBDA_ARN'')"
  "truthy (env_var example_world ''SCHEDULER_EXECUTION_ROLE_ARN'')"
  by (simp_all add: env_var_def example_world_def example_env_def)

lemma example_event_properties:
  "get_property example_event ''url'' = Inr (Str ''https://example.com/hook'')"
  "get_property example_event ''body'' = Inr (Obj [(''a'', Num 1)])"
  by (simp_all add: example_event_def)

lemma example_input:
  \<open>Target_Input (example_command example_world ''oneTime-1767225600000'')
     = ''{"url":"https://example.com/hook","body":{"a":1}}''\<close>
  by (simp add: example_command_def example_world_def quoted_def decimal_def dec_eval)

text \<open>
  A \<open>target_url\<close> that ToString cannot convert: the description of the schedule cannot
  be built, nothing is sent, and the answer is 500.
\<close>

lemma unprintable_url_is_500:
  "setter_handler example_world unprintable_url_request
     = ([], Inr (error_creating example_world cannot_convert))"
  by (simp add: example_defs unprintable_url_request_def)

section \<open>The identifier of a schedule\<close>

text \<open>
  Claim C1, as the code has it. The name the setter gives a schedule is
  \<open>oneTime-\<close> followed by the clock's reading in decimal, and nothing else: the
  schedules sent by two runs of the handler carry different names exactly when the
  two runs read different values off the clock.
\<close>

theorem schedule_name_follows_clock:
  assumes "c1 \<in> set (calls (setter_handler w1 event1))"
    and "c2 \<in> set (calls (setter_handler w2 event2))"
  shows "Name c1 = ''oneTime-'' @ decimal (Date_now w1)
       \<and> (Name c1 = Name c2 \<longleftrightarrow> Date_now w1 = Date_now w2)"
proof -
  from assms(1) have n1: "Name c1 = scheduleName (Date_now w1)"
    unfolding setter_handler_def
    by (auto dest!: schedule_request_calls try_schedule_calls simp: command_fields)
  from assms(2) have n2: "Name c2 = scheduleName (Date_now w2)"
    unfolding setter_handler_def
    by (auto dest!: schedule_request_calls try_schedule_calls simp: command_fields)
  from n1 n2 show ?thesis
    by (simp add: scheduleName_inject) (simp add: scheduleName_def)
qed

text \<open>The example request, scheduled at two consecutive milliseconds.\<close>

theorem schedule_name_follows_clock_witness:
  "example_command example_world ''oneTime-1767225600000''
     \<in> set (calls (setter_handler example_world example_request))
   \<and> example_command later_world ''oneTime-1767225600001''
     \<in> set (calls (setter_handler later_world example_request))
   \<and> Name (example_command example_world ''oneTime-1767225600000'')
       = ''oneTime-'' @ decimal (Date_now example_world)
   \<and> (Name (example_command example_world ''oneTime-1767225600000'')
        = Name (example_command later_world ''oneTime-1767225600001'')
      \<longleftrightarrow> Date_now example_world = Date_now later_world)"
proof -
  have 1: "example_command example_world ''oneTime-1767225600000''
      \<in> set (calls (setter_handler example_world example_request))"
    by (simp add: example_defs example_request_def example_command_def scheduleName_example)
  have 2: "example_command later_world ''oneTime-1767225600001''
      \<in> set (calls (setter_handler later_world example_request))"
    by (simp add: example_defs example_request_def example_command_def later_world_def
          scheduleName_def decimal_def dec_eval)
  from 1 2 schedule_name_follows_clock [OF 1 2] show ?thesis
    by blast
qed

text \<open>
  Claim C1 as the specification states it (any two completed calls return distinct
  identifiers) fails: two runs that read the same millisecond off the clock, here for
  two different requests to a scheduler that accepts both, are answered 200 with the
  same identifier, and both schedules carry the same name.
\<close>

theorem same_clock_same_name:
  "status_of (setter_handler example_world example_request) = Some 200
   \<and> status_of (setter_handler example_world other_request) = Some 200
   \<and> map Name (calls (setter_handler example_world example_request)) = [''oneTime-1767225600000'']
   \<and> map Name (calls (setter_handler example_world other_request)) = [''oneTime-1767225600000'']
   \<and> outcome (setter_handler example_world example_request)
       = outcome (setter_handler example_world other_request)"
  by (simp add: example_defs example_request_def other_request_def scheduleName_example
        command_fields status_of_def create_schedule_command_def)

section \<open>Validation of the request\<close>

text \<open>
  Claim C2, as the code has it. For a request that can be destructured, the setter
  answers 400 exactly when \<open>target_url\<close>, \<open>target_body\<close> or
  \<open>schedule_time_utc\<close> is missing or falsy. The syntax of \<open>target_url\<close> is never
  looked at. A \<open>schedule_time_utc\<close> that \<open>parseISO\<close> turns into the Invalid Date
  raises an error inside the \<open>try\<close> block, which the \<open>catch\<close> answers with 500.
\<close>

theorem bad_request_iff_missing_parameter:
  assumes "request_fields (request_body w event) = Inr (target_url, target_body, schedule_time_utc)"
  shows "(status_of (setter_handler w event) = Some 400
            \<longleftrightarrow> \<not> truthy target_url \<or> \<not> truthy target_body \<or> \<not> truthy schedule_time_utc)
       \<and> (truthy target_url \<and> truthy target_body \<and> truthy schedule_time_utc
            \<and> parseISO w schedule_time_utc = Inr Invalid_Date
          \<longrightarrow> outcome (setter_handler w event) = Inr (error_creating w invalid_time)
            \<and> status_of (setter_handler w event) = Some 500)"
proof -
  have "status_of (setter_handler w event) = Some 400
            \<longleftrightarrow> \<not> truthy target_url \<or> \<not> truthy target_body \<or> \<not> truthy schedule_time_utc"
    unfolding setter_handler_def schedule_request_status [OF assms]
    by (simp split: sum.splits)
  moreover have "outcome (setter_handler w event) = Inr (error_creating w invalid_time)
      \<and> status_of (setter_handler w event) = Some 500"
    if "truthy target_url" "truthy target_body" "truthy schedule_time_utc"
      "parseISO w schedule_time_utc = Inr Invalid_Date"
  proof -
    from that(4) have "try_schedule w target_url target_body schedule_time_utc = ([], Inl invalid_time)"
      by (simp add: try_schedule_def)
    with schedule_request_truthy [OF assms that(1-3), of w] show ?thesis
      by (simp add: setter_handler_def status_of_def status_error_creating)
  qed
  ultimately show ?thesis by blast
qed

text \<open>A request whose time does not parse: it is not answered 400, but 500.\<close>

theorem bad_request_iff_missing_parameter_witness:
  "request_fields (request_body example_world bad_time_request)
     = Inr (Str ''https://example.com/hook'', Obj [(''a'', Num 1)], Str ''tomorrow at noon'')
   \<and> truthy (Str ''https://example.com/hook'') \<and> truthy (Obj [(''a'', Num 1)])
   \<and> truthy (Str ''tomorrow at noon'')
   \<and> parseISO example_world (Str ''tomorrow at noon'') = Inr Invalid_Date
   \<and> status_of (setter_handler example_world bad_time_request) \<noteq> Some 400
   \<and> outcome (setter_handler example_world bad_time_request)
       = Inr (error_creating example_world invalid_time)
   \<and> status_of (setter_handler example_world bad_time_request) = Some 500"
proof -
  have f: "request_fields (request_body example_world bad_time_request)
     = Inr (Str ''https://example.com/hook'', Obj [(''a'', Num 1)], Str ''tomorrow at noon'')"
    by (simp add: bad_time_request_def example_request_body request_fields_request)
  have p: "parseISO example_world (Str ''tomorrow at noon'') = Inr Invalid_Date"
    by (simp add: example_world_def example_parseISO_def)
  from f p bad_request_iff_missing_parameter [OF f] show ?thesis
    by simp
qed

text \<open>
  Claim C2 as the specification states it (400 exactly for a malformed URL or an
  unparseable time) fails on both counts: an unparseable time is answered 500, and a
  string that is no URL is scheduled and answered 200.
\<close>

theorem unparseable_time_is_500:
  "parseISO example_world (Str ''tomorrow at noon'') = Inr Invalid_Date
   \<and> status_of (setter_handler example_world bad_time_request) = Some 500
   \<and> status_of (setter_handler example_world bad_url_request) = Some 200"
  by (simp add: example_defs bad_time_request_def bad_url_request_def status_of_def
        error_creating_def)

section \<open>Delivery by the worker\<close>

text \<open>
  Claim C3, as the code has it. Every schedule the setter sends carries as its input the
  serialisation of \<open>{url: target_url, body: target_body}\<close>. The worker's event is the
  parse of that input. When the parse still carries the caller's \<open>target_url\<close> and
  \<open>target_body\<close>, the worker makes exactly one call of \<open>fetch\<close>: a POST to
  \<open>target_url\<close> whose body is the serialisation of \<open>target_body\<close>; and when the
  response has a 2xx status and its body can be read, the worker returns status 200.
\<close>

theorem webhook_posted_once:
  assumes "request_fields (request_body w event) = Inr (target_url, target_body, schedule_time_utc)"
    and "c \<in> set (calls (setter_handler w event))"
    and "JSON_parse w (Str (Target_Input c)) = Inr worker_event"
    and "get_property worker_event ''url'' = Inr target_url"
    and "get_property worker_event ''body'' = Inr target_body"
  shows "Target_Input c = JSON_stringify w (Obj [(''url'', target_url), (''body'', target_body)])
       \<and> calls (worker_handler w worker_event)
           = [\<lparr>req_url = target_url, req_method = ''POST'',
               req_headers = [(''Content-Type'', ''application/json''),
                              (''X-Scheduler-Invocation'', ''true'')],
               req_body = JSON_stringify w target_body\<rparr>]
       \<and> (\<forall>r t. fetch w (webhook_request w target_url target_body) = Inr r
              \<and> ok r \<and> text_result r = Inr t
            \<longrightarrow> outcome (worker_handler w worker_event) = Inr (webhook_called w r t)
              \<and> status_of (worker_handler w worker_event) = Some 200)"
proof -
  note sd = sent_description [OF assms(1,2)]
  from sd(3) obtain s where s: "template_value w target_url = Inr s" by blast
  note wt = worker_truthy [OF assms(4,5) sd(1,2), of w]
  have "calls (worker_handler w worker_event) = [webhook_request w target_url target_body]"
    using wt(2) try_deliver_calls [OF s] by simp
  moreover have "outcome (worker_handler w worker_event) = Inr (webhook_called w r t)
      \<and> status_of (worker_handler w worker_event) = Some 200"
    if "fetch w (webhook_request w target_url target_body) = Inr r" "ok r" "text_result r = Inr t"
    for r t
    using that wt(1) by (simp add: try_deliver_outcome status_of_def status_worker_responses)
  ultimately show ?thesis using sd(4)
    by (simp add: lambdaInputPayload_def webhook_request_def)
qed

text \<open>The example request, scheduled and then delivered to a webhook that answers 200.\<close>

theorem webhook_posted_once_witness:
  "request_fields (request_body example_world example_request)
     = Inr (Str ''https://example.com/hook'', Obj [(''a'', Num 1)], Str ''2030-01-01T00:00:00Z'')
   \<and> example_command example_world ''oneTime-1767225600000''
       \<in> set (calls (setter_handler example_world example_request))
   \<and> JSON_parse example_world (Str (Target_Input (example_command example_world ''oneTime-1767225600000'')))
       = Inr example_event
   \<and> get_property example_event ''url'' = Inr (Str ''https://example.com/hook'')
   \<and> get_property example_event ''body'' = Inr (Obj [(''a'', Num 1)])
   \<and> fetch example_world (webhook_request example_world (Str ''https://example.com/hook'') (Obj [(''a'', Num 1)]))
       = Inr \<lparr>status = 200, text_result = Inr ''ok''\<rparr>
   \<and> ok \<lparr>status = 200, text_result = Inr ''ok''\<rparr>
   \<and> calls (worker_handler example_world example_event)
       = [\<lparr>req_url = Str ''https://example.com/hook'', req_method = ''POST'',
           req_headers = [(''Content-Type'', ''application/json''),
                          (''X-Scheduler-Invocation'', ''true'')],
           req_body = JSON_stringify example_world (Obj [(''a'', Num 1)])\<rparr>]
   \<and> status_of (worker_handler example_world example_event) = Some 200"
proof -
  have p: "JSON_parse example_world (Str (Target_Input (example_command example_world ''oneTime-1767225600000'')))
       = Inr example_event"
    unfolding example_input by (simp add: example_world_def example_parse_def example_event_def)
  have r: "fetch example_world (webhook_request example_world (Str ''https://example.com/hook'') (Obj [(''a'', Num 1)]))
       = Inr \<lparr>status = 200, text_result = Inr ''ok''\<rparr>"
    by (simp add: fetch_def template_value_def webhook_request_def example_world_def
          example_transport_def)
  have k: "ok \<lparr>status = 200, text_result = Inr ''ok''\<rparr>"
    by (simp add: ok_def)
  from webhook_posted_once [OF example_fields example_sent p example_event_properties] r k
  show ?thesis
    using example_fields example_sent p example_event_properties by simp
qed

text \<open>
  Claim C3 as the specification states it (the worker always posts the caller's body,
  and a 2xx response always gives 200) fails twice. The body \<open>1e999\<close> is read as
  \<open>Infinity\<close>, which is truthy, so the request is scheduled and answered 200; but
  \<open>Infinity\<close> is serialised as \<open>null\<close>, the worker's event has the body \<open>null\<close>,
  and the worker answers 400 without calling \<open>fetch\<close>. And when the body of a 200
  response cannot be read, the worker answers 500.
\<close>

theorem overflowing_body_not_delivered:
  \<open>status_of (setter_handler example_world overflow_request) = Some 200
   \<and> map Target_Input (calls (setter_handler example_world overflow_request))
       = [''{"url":"https://example.com/hook","body":null}'']
   \<and> JSON_parse example_world (Str ''{"url":"https://example.com/hook","body":null}'')
       = Inr null_payload_event
   \<and> worker_handler example_world null_payload_event
       = ([], Inr (missing_url_or_body example_world))
   \<and> status_of (worker_handler example_world null_payload_event) = Some 400
   \<and> fetch truncating_world
        (webhook_request truncating_world (Str ''https://example.com/hook'') (Obj [(''a'', Num 1)]))
       = Inr \<lparr>status = 200, text_result = Inl (JsError ''TypeError'' ''terminated'')\<rparr>
   \<and> ok \<lparr>status = 200, text_result = Inl (JsError ''TypeError'' ''terminated'')\<rparr>
   \<and> status_of (worker_handler truncating_world example_event) = Some 500\<close>
proof -
  have 1: "status_of (setter_handler example_world overflow_request) = Some 200"
    by (simp add: example_defs overflow_request_def status_of_def)
  have 2: \<open>map Target_Input (calls (setter_handler example_world overflow_request))
       = [''{"url":"https://example.com/hook","body":null}'']\<close>
    by (simp add: example_defs overflow_request_def quoted_def)
  have 3: \<open>JSON_parse example_world (Str ''{"url":"https://example.com/hook","body":null}'')
       = Inr null_payload_event\<close>
    by (simp add: example_world_def example_parse_def null_payload_event_def)
  have 4: "worker_handler example_world null_payload_event
       = ([], Inr (missing_url_or_body example_world))"
    by (simp add: worker_handler_def null_payload_event_def)
  have 5: "fetch truncating_world
        (webhook_request truncating_world (Str ''https://example.com/hook'') (Obj [(''a'', Num 1)]))
       = Inr \<lparr>status = 200, text_result = Inl (JsError ''TypeError'' ''terminated'')\<rparr>"
    by (simp add: truncating_world_def fetch_def template_value_def webhook_request_def)
  have 6: "ok \<lparr>status = 200, text_result = Inl (JsError ''TypeError'' ''terminated'')\<rparr>"
    by (simp add: ok_def)
  have 7: "status_of (worker_handler truncating_world example_event) = Some 500"
    by (simp add: worker_handler_def example_event_def try_deliver_def 5 6 Let_def
          template_value_def status_of_def error_calling_def)
  from 1 2 3 4 5 6 7 show ?thesis
    by (simp add: status_of_def missing_url_or_body_def)
qed

text \<open>
  Claim C4. Once the worker has a truthy \<open>url\<close> and \<open>body\<close>, it always returns a
  response, with status 200 or 500, and no error escapes. A rejected \<open>fetch\<close> gives
  500 with the error's message; a response outside 200 to 299 gives 500 whatever its
  body holds, and whether or not the body can be read; a body that cannot be read gives
  500 as well.
\<close>

theorem failed_delivery_is_500:
  assumes "get_property event ''url'' = Inr u" and "get_property event ''body'' = Inr b"
    and "truthy u" and "truthy b"
  shows "(status_of (worker_handler w event) = Some 200 \<or> status_of (worker_handler w event) = Some 500)
       \<and> (\<forall>e. fetch w (webhook_request w u b) = Inl e
            \<longrightarrow> outcome (worker_handler w event) = Inr (error_calling w e))
       \<and> (\<forall>r. fetch w (webhook_request w u b) = Inr r \<and> \<not> ok r
            \<longrightarrow> status_of (worker_handler w event) = Some 500)
       \<and> (\<forall>r e. fetch w (webhook_request w u b) = Inr r \<and> text_result r = Inl e
            \<longrightarrow> outcome (worker_handler w event) = Inr (error_calling w e))"
  using worker_truthy(1) [OF assms, of w]
  by (auto simp: try_deliver_outcome status_of_def status_worker_responses split: sum.splits)

text \<open>The three failures, one world each.\<close>

theorem failed_delivery_is_500_witness:
  "get_property example_event ''url'' = Inr (Str ''https://example.com/hook'')
   \<and> get_property example_event ''body'' = Inr (Obj [(''a'', Num 1)])
   \<and> truthy (Str ''https://example.com/hook'') \<and> truthy (Obj [(''a'', Num 1)])
   \<and> fetch refusing_world (webhook_request refusing_world (Str ''https://example.com/hook'') (Obj [(''a'', Num 1)]))
       = Inl (JsError ''TypeError'' ''fetch failed'')
   \<and> outcome (worker_handler refusing_world example_event)
       = Inr (error_calling refusing_world (JsError ''TypeError'' ''fetch failed''))
   \<and> fetch busy_world (webhook_request busy_world (Str ''https://example.com/hook'') (Obj [(''a'', Num 1)]))
       = Inr \<lparr>status = 503, text_result = Inr ''Service Unavailable''\<rparr>
   \<and> \<not> ok \<lparr>status = 503, text_result = Inr ''Service Unavailable''\<rparr>
   \<and> status_of (worker_handler busy_world example_event) = Some 500
   \<and> fetch truncating_world (webhook_request truncating_world (Str ''https://example.com/hook'') (Obj [(''a'', Num 1)]))
       = Inr \<lparr>status = 200, text_result = Inl (JsError ''TypeError'' ''terminated'')\<rparr>
   \<and> outcome (worker_handler truncating_world example_event)
       = Inr (error_calling truncating_world (JsError ''TypeError'' ''terminated''))"
proof -
  have t: "truthy (Str ''https://example.com/hook'')" "truthy (Obj [(''a'', Num 1)])"
    by simp_all
  note inst = failed_delivery_is_500 [OF example_event_properties t]
  have 1: "fetch refusing_world (webhook_request refusing_world (Str ''https://example.com/hook'') (Obj [(''a'', Num 1)]))
       = Inl (JsError ''TypeError'' ''fetch failed'')"
    by (simp add: refusing_world_def fetch_def template_value_def webhook_request_def)
  have 2: "fetch busy_world (webhook_request busy_world (Str ''https://example.com/hook'') (Obj [(''a'', Num 1)]))
       = Inr \<lparr>status = 503, text_result = Inr ''Service Unavailable''\<rparr>"
    by (simp add: busy_world_def fetch_def template_value_def webhook_request_def)
  have 3: "fetch truncating_world (webhook_request truncating_world (Str ''https://example.com/hook'') (Obj [(''a'', Num 1)]))
       = Inr \<lparr>status = 200, text_result = Inl (JsError ''TypeError'' ''terminated'')\<rparr>"
    by (simp add: truncating_world_def fetch_def template_value_def webhook_request_def)
  have k: "\<not> ok \<lparr>status = 503, text_result = Inr ''Service Unavailable''\<rparr>"
    by (simp add: ok_def)
  from inst [of refusing_world] 1
  have a: "outcome (worker_handler refusing_world example_event)
       = Inr (error_calling refusing_world (JsError ''TypeError'' ''fetch failed''))"
    by blast
  from inst [of busy_world] 2 k
  have b: "status_of (worker_handler busy_world example_event) = Some 500"
    by blast
  from inst [of truncating_world] 3
  have c: "outcome (worker_handler truncating_world example_event)
       = Inr (error_calling truncating_world (JsError ''TypeError'' ''terminated''))"
    by (metis fetch_response.select_convs(2))
  from a b c 1 2 3 k t example_event_properties show ?thesis
    by blast
qed

section \<open>The responses of the setter\<close>

text \<open>
  Claim C5 says that every request is answered with 200, 400 or 500. The setter does so
  whenever the request can be destructured (\<open>setter_status_cases\<close> above), but the
  destructuring stands outside the \<open>try\<close> block: a request whose body is the JSON
  document \<open>null\<close> parses to \<open>null\<close>, the destructuring throws a TypeError, and
  the handler ends with that error instead of a response.
\<close>

theorem null_body_escapes:
  "JSON_parse example_world (Str ''null'') = Inr Null
   \<and> setter_handler example_world null_body_event
       = ([], Inl (JsError ''TypeError'' ''Cannot read properties of null (reading target_url)''))
   \<and> status_of (setter_handler example_world null_body_event) = None"
  by (simp add: example_defs null_body_event_def status_of_def)

text \<open>
  Claim C6. Every schedule the setter sends has \<open>ActionAfterCompletion\<close> set to
  \<open>DELETE\<close>, and a run answered 200 has sent exactly one schedule. The earlier version
  of the handler sends no schedule at all.
\<close>

theorem schedules_delete_after_completion:
  "(\<forall>c \<in> set (calls (setter_handler w event)). ActionAfterCompletion c = DELETE)
   \<and> (status_of (setter_handler w event) = Some 200 \<longrightarrow> length (calls (setter_handler w event)) = 1)
   \<and> calls (setter_handler_v1 w event) = []"
proof -
  have "ActionAfterCompletion c = DELETE" if "c \<in> set (calls (setter_handler w event))" for c
    using that unfolding setter_handler_def
    by (auto dest!: schedule_request_calls try_schedule_calls simp: command_fields)
  moreover have "length (calls (setter_handler w event)) = 1"
    if s: "status_of (setter_handler w event) = Some 200"
  proof (cases "request_fields (request_body w event)")
    case (Inl e)
    with s show ?thesis
      by (simp add: setter_handler_def schedule_request_def status_of_def)
  next
    case (Inr f)
    then obtain u b t where f: "request_fields (request_body w event) = Inr (u, b, t)"
      by (cases f) auto
    from s have tr: "truthy u" "truthy b" "truthy t"
      and "\<exists>r. outcome (try_schedule w u b t) = Inr r"
      unfolding setter_handler_def schedule_request_status [OF f]
      by (auto split: if_splits sum.splits)
    then obtain r where "outcome (try_schedule w u b t) = Inr r" by blast
    then have "length (calls (try_schedule w u b t)) = 1" by (rule try_schedule_returned)
    with schedule_request_truthy [OF f tr, of w] show ?thesis
      by (simp add: setter_handler_def)
  qed
  moreover have "calls (setter_handler_v1 w event) = []"
    by (simp add: setter_handler_v1_def calls_v1)
  ultimately show ?thesis by blast
qed

text \<open>The schedule sent for the example request.\<close>

theorem schedules_delete_after_completion_witness:
  "calls (setter_handler example_world example_request)
     = [example_command example_world ''oneTime-1767225600000'']
   \<and> ActionAfterCompletion (example_command example_world ''oneTime-1767225600000'') = DELETE
   \<and> status_of (setter_handler example_world example_request) = Some 200
   \<and> length (calls (setter_handler example_world example_request)) = 1"
proof -
  have c: "calls (setter_handler example_world example_request)
     = [example_command example_world ''oneTime-1767225600000'']"
    by (simp add: example_defs example_request_def example_command_def scheduleName_example)
  have s: "status_of (setter_handler example_world example_request) = Some 200"
    by (simp add: example_defs example_request_def status_of_def)
  from c s schedules_delete_after_completion [of example_world example_request] show ?thesis
    by simp
qed

text \<open>
  Claim C7. The clock contributes the schedule's name and nothing else. For every
  request and any two readings \<open>now\<close> and \<open>now'\<close> of the clock, a schedule that is
  sent is named after the reading, the two runs send the same schedules up to that
  name, and when nothing is sent the two runs are the same. And a request that has its
  three parameters, a time that parses to the instant \<open>fire_at\<close>, both ARN variables
  set and a \<open>target_url\<close> that can be written into the description (every string can)
  is, whatever the clock reads, before or after \<open>fire_at\<close>, sent as one schedule for
  \<open>at(fire_at)\<close>, not answered 400, and answered 200 when the scheduler accepts the
  schedule.
\<close>

theorem past_fire_time_accepted:
  "(\<forall>c \<in> set (calls (setter_handler (w\<lparr>Date_now := now\<rparr>) event)). Name c = scheduleName now)
   \<and> map (\<lambda>c. c\<lparr>Name := []\<rparr>) (calls (setter_handler (w\<lparr>Date_now := now\<rparr>) event))
       = map (\<lambda>c. c\<lparr>Name := []\<rparr>) (calls (setter_handler (w\<lparr>Date_now := now'\<rparr>) event))
   \<and> (calls (setter_handler (w\<lparr>Date_now := now\<rparr>) event) = []
        \<longrightarrow> setter_handler (w\<lparr>Date_now := now'\<rparr>) event = setter_handler (w\<lparr>Date_now := now\<rparr>) event)
   \<and> (request_fields (request_body w event) = Inr (target_url, target_body, schedule_time_utc)
        \<and> truthy target_url \<and> truthy target_body \<and> truthy schedule_time_utc
        \<and> parseISO w schedule_time_utc = Inr (Date fire_at)
        \<and> truthy (env_var w ''WORKER_LAMBDA_ARN'')
        \<and> truthy (env_var w ''SCHEDULER_EXECUTION_ROLE_ARN'')
        \<and> template_value w target_url = Inr printed
      \<longrightarrow> (\<exists>c. calls (setter_handler (w\<lparr>Date_now := now\<rparr>) event) = [c]
             \<and> Name c = scheduleName now
             \<and> ScheduleExpression c = ''at('' @ take 19 (formatISO w fire_at) @ '')''
             \<and> status_of (setter_handler (w\<lparr>Date_now := now\<rparr>) event) \<noteq> Some 400
             \<and> (\<forall>resp. send w c = Inr resp \<and> resp \<noteq> Null \<and> resp \<noteq> Undefined
                  \<longrightarrow> status_of (setter_handler (w\<lparr>Date_now := now\<rparr>) event) = Some 200)))"
proof -
  let ?w = "w\<lparr>Date_now := now\<rparr>"
  have name: "Name c = scheduleName now" if "c \<in> set (calls (setter_handler ?w event))" for c
    using that unfolding setter_handler_def
    by (auto dest!: schedule_request_calls try_schedule_calls dest: command_fields)
  have same: "map (\<lambda>c. c\<lparr>Name := []\<rparr>) (calls (setter_handler ?w event))
       = map (\<lambda>c. c\<lparr>Name := []\<rparr>) (calls (setter_handler (w\<lparr>Date_now := now'\<rparr>) event))"
    unfolding setter_handler_def request_body_clock by (rule schedule_request_sent_clock)
  have unsent: "setter_handler (w\<lparr>Date_now := now'\<rparr>) event = setter_handler ?w event"
    if "calls (setter_handler ?w event) = []"
    using that unfolding setter_handler_def request_body_clock
    by (rule schedule_request_unsent_clock)
  have accepted: "\<exists>c. calls (setter_handler ?w event) = [c]
             \<and> Name c = scheduleName now
             \<and> ScheduleExpression c = ''at('' @ take 19 (formatISO w fire_at) @ '')''
             \<and> status_of (setter_handler ?w event) \<noteq> Some 400
             \<and> (\<forall>resp. send w c = Inr resp \<and> resp \<noteq> Null \<and> resp \<noteq> Undefined
                  \<longrightarrow> status_of (setter_handler ?w event) = Some 200)"
    if f0: "request_fields (request_body w event) = Inr (target_url, target_body, schedule_time_utc)"
      and tr: "truthy target_url" "truthy target_body" "truthy schedule_time_utc"
      and p0: "parseISO w schedule_time_utc = Inr (Date fire_at)"
      and e0: "truthy (env_var w ''WORKER_LAMBDA_ARN'')"
        "truthy (env_var w ''SCHEDULER_EXECUTION_ROLE_ARN'')"
      and d0: "template_value w target_url = Inr printed"
  proof -
    have f: "request_fields (request_body ?w event) = Inr (target_url, target_body, schedule_time_utc)"
      using f0 by (simp add: request_body_clock)
    have p: "parseISO ?w schedule_time_utc = Inr (Date fire_at)"
      using p0 by simp
    have e: "truthy (env_var ?w ''WORKER_LAMBDA_ARN'')"
      "truthy (env_var ?w ''SCHEDULER_EXECUTION_ROLE_ARN'')"
      using e0 by (simp_all add: env_var_clock)
    have d: "template_value ?w target_url = Inr printed"
      using d0 by (simp add: template_value_clock)
    from try_schedule_valid [OF p e d, of target_body]
    obtain c where c: "calls (try_schedule ?w target_url target_body schedule_time_utc) = [c]"
      and cmd: "create_schedule_command ?w (scheduleName (Date_now ?w)) (take 19 (formatISO ?w fire_at))
               (env_var ?w ''WORKER_LAMBDA_ARN'') (env_var ?w ''SCHEDULER_EXECUTION_ROLE_ARN'')
               (js_or (env_var ?w ''SCHEDULER_GROUP_NAME'') (Str ''default''))
               target_url target_body = Inr c"
      and out: "outcome (try_schedule ?w target_url target_body schedule_time_utc)
               = (case send ?w c of Inl e \<Rightarrow> Inl e | Inr resp \<Rightarrow> created ?w resp)"
      by blast
    note sr = schedule_request_truthy [OF f tr, of ?w]
    have "calls (setter_handler ?w event) = [c]"
      using sr c by (simp add: setter_handler_def)
    moreover have "Name c = scheduleName now"
      "ScheduleExpression c = ''at('' @ take 19 (formatISO w fire_at) @ '')''"
      using command_fields(1,5) [OF cmd] by simp_all
    moreover have "status_of (setter_handler ?w event) \<noteq> Some 400"
      unfolding setter_handler_def schedule_request_status [OF f]
      using tr by (simp split: sum.splits)
    moreover have "status_of (setter_handler ?w event) = Some 200"
      if "send w c = Inr resp" "resp \<noteq> Null" "resp \<noteq> Undefined" for resp
    proof -
      from created_object [OF that(2,3)] obtain r where "created ?w resp = Inr r" by blast
      with that(1) out
      have "outcome (try_schedule ?w target_url target_body schedule_time_utc) = Inr r"
        by simp
      then show ?thesis
        unfolding setter_handler_def schedule_request_status [OF f]
        using tr by simp
    qed
    ultimately show ?thesis by blast
  qed
  from name same unsent accepted show ?thesis by blast
qed

text \<open>
  A request for the first second of 2020, made in 2026; and a request whose time does
  not parse, made in 2026 and in 2017.
\<close>

theorem past_fire_time_accepted_witness:
  "request_fields (request_body example_world past_request)
     = Inr (Str ''https://example.com/hook'', Obj [(''a'', Num 1)], Str ''2020-01-01T00:00:00Z'')
   \<and> truthy (Str ''https://example.com/hook'') \<and> truthy (Obj [(''a'', Num 1)])
   \<and> truthy (Str ''2020-01-01T00:00:00Z'')
   \<and> parseISO example_world (Str ''2020-01-01T00:00:00Z'') = Inr (Date 1577836800000)
   \<and> truthy (env_var example_world ''WORKER_LAMBDA_ARN'')
   \<and> truthy (env_var example_world ''SCHEDULER_EXECUTION_ROLE_ARN'')
   \<and> template_value example_world (Str ''https://example.com/hook'') = Inr ''https://example.com/hook''
   \<and> (1577836800000 :: int) < 1767225600000
   \<and> map Name (calls (setter_handler (example_world\<lparr>Date_now := 1767225600000\<rparr>) past_request))
       = [scheduleName 1767225600000]
   \<and> map ScheduleExpression (calls (setter_handler (example_world\<lparr>Date_now := 1767225600000\<rparr>) past_request))
       = [''at(2020-01-01T00:00:00)'']
   \<and> status_of (setter_handler (example_world\<lparr>Date_now := 1767225600000\<rparr>) past_request) = Some 200
   \<and> calls (setter_handler (example_world\<lparr>Date_now := 1767225600000\<rparr>) bad_time_request) = []
   \<and> setter_handler (example_world\<lparr>Date_now := 1500000000000\<rparr>) bad_time_request
       = setter_handler (example_world\<lparr>Date_now := 1767225600000\<rparr>) bad_time_request"
proof -
  have f: "request_fields (request_body example_world past_request)
     = Inr (Str ''https://example.com/hook'', Obj [(''a'', Num 1)], Str ''2020-01-01T00:00:00Z'')"
    by (simp add: past_request_def example_request_body request_fields_request)
  have t: "truthy (Str ''https://example.com/hook'')" "truthy (Obj [(''a'', Num 1)])"
    "truthy (Str ''2020-01-01T00:00:00Z'')"
    by simp_all
  have p: "parseISO example_world (Str ''2020-01-01T00:00:00Z'') = Inr (Date 1577836800000)"
    by (simp add: example_world_def example_parseISO_def)
  have d: "template_value example_world (Str ''https://example.com/hook'') = Inr ''https://example.com/hook''"
    by (simp add: template_value_def)
  have u: "calls (setter_handler (example_world\<lparr>Date_now := 1767225600000\<rparr>) bad_time_request) = []"
    by (simp add: example_defs bad_time_request_def)
  note past = past_fire_time_accepted [where w = example_world and now = 1767225600000
      and now' = 1500000000000 and event = past_request
      and target_url = "Str ''https://example.com/hook''" and target_body = "Obj [(''a'', Num 1)]"
      and schedule_time_utc = "Str ''2020-01-01T00:00:00Z''" and fire_at = 1577836800000
      and printed = "''https://example.com/hook''"]
  from past f t p d example_env_truthy
  obtain c where c: "calls (setter_handler (example_world\<lparr>Date_now := 1767225600000\<rparr>) past_request) = [c]"
    and n: "Name c = scheduleName 1767225600000"
    and e: "ScheduleExpression c = ''at('' @ take 19 (formatISO example_world 1577836800000) @ '')''"
    and s: "\<forall>resp. send example_world c = Inr resp \<and> resp \<noteq> Null \<and> resp \<noteq> Undefined
          \<longrightarrow> status_of (setter_handler (example_world\<lparr>Date_now := 1767225600000\<rparr>) past_request) = Some 200"
    by blast
  have "send example_world c = Inr (Obj [(''ScheduleArn'',
          Str (''arn:aws:scheduler:us-east-1:123456789012:schedule/''
               @ (case GroupName c of Str g \<Rightarrow> g | _ \<Rightarrow> ''default'') @ ''/'' @ Name c))])"
    by (simp add: example_world_def example_send_def)
  with s have "status_of (setter_handler (example_world\<lparr>Date_now := 1767225600000\<rparr>) past_request) = Some 200"
    by blast
  moreover from e have "ScheduleExpression c = ''at(2020-01-01T00:00:00)''"
    by (simp add: example_world_def example_formatISO_def)
  moreover from u past_fire_time_accepted [where w = example_world and now = 1767225600000
      and now' = 1500000000000 and event = bad_time_request]
  have "setter_handler (example_world\<lparr>Date_now := 1500000000000\<rparr>) bad_time_request
       = setter_handler (example_world\<lparr>Date_now := 1767225600000\<rparr>) bad_time_request"
    by blast
  ultimately show ?thesis using f t p d u c n example_env_truthy
    by simp
qed




text \<open>
  Claim C9, as the code has it. If \<open>WORKER_LAMBDA_ARN\<close> or
  \<open>SCHEDULER_EXECUTION_ROLE_ARN\<close> is unset (or empty), no request is ever scheduled or
  answered 200. The variables are looked up after the presence check and the parsing of
  the time: a request that has its three parameters and a time that parses is answered
  500 with the message naming the variable, and never 400; a request that lacks a
  parameter is answered 400 whatever the environment. If only \<open>SCHEDULER_GROUP_NAME\<close>
  is unset (or empty), a request that reaches the lookup and whose \<open>target_url\<close> can be
  written into the description is sent to the scheduler with the group \<open>default\<close>.
\<close>

theorem env_defaults_and_fatal:
  "(\<not> truthy (env_var w ''WORKER_LAMBDA_ARN'') \<or> \<not> truthy (env_var w ''SCHEDULER_EXECUTION_ROLE_ARN'')
      \<longrightarrow> calls (setter_handler w event) = [] \<and> status_of (setter_handler w event) \<noteq> Some 200)
   \<and> (request_fields (request_body w event) = Inr (target_url, target_body, schedule_time_utc)
        \<and> truthy target_url \<and> truthy target_body \<and> truthy schedule_time_utc
        \<and> parseISO w schedule_time_utc = Inr (Date fire_at)
      \<longrightarrow> (\<not> truthy (env_var w ''WORKER_LAMBDA_ARN'')
            \<longrightarrow> outcome (setter_handler w event) = Inr (error_creating w worker_arn_not_set)
              \<and> status_of (setter_handler w event) = Some 500)
        \<and> (truthy (env_var w ''WORKER_LAMBDA_ARN'')
            \<and> \<not> truthy (env_var w ''SCHEDULER_EXECUTION_ROLE_ARN'')
            \<longrightarrow> outcome (setter_handler w event) = Inr (error_creating w role_arn_not_set)
              \<and> status_of (setter_handler w event) = Some 500)
        \<and> (truthy (env_var w ''WORKER_LAMBDA_ARN'')
            \<and> truthy (env_var w ''SCHEDULER_EXECUTION_ROLE_ARN'')
            \<and> \<not> truthy (env_var w ''SCHEDULER_GROUP_NAME'')
            \<and> template_value w target_url = Inr printed
            \<longrightarrow> (\<exists>c. calls (setter_handler w event) = [c] \<and> GroupName c = Str ''default''))
        \<and> status_of (setter_handler w event) \<noteq> Some 400)
   \<and> (request_fields (request_body w event) = Inr (target_url, target_body, schedule_time_utc)
        \<and> (\<not> truthy target_url \<or> \<not> truthy target_body \<or> \<not> truthy schedule_time_utc)
      \<longrightarrow> setter_handler w event = ([], Inr (missing_parameters w)))"
proof -
  have fatal: "calls (setter_handler w event) = [] \<and> status_of (setter_handler w event) \<noteq> Some 200"
    if "\<not> truthy (env_var w ''WORKER_LAMBDA_ARN'') \<or> \<not> truthy (env_var w ''SCHEDULER_EXECUTION_ROLE_ARN'')"
  proof -
    have no: "calls (try_schedule w u b t) = [] \<and> (\<forall>r. outcome (try_schedule w u b t) \<noteq> Inr r)" for u b t
      using that by (auto simp: try_schedule_def Let_def split: sum.splits js_date.splits)
    show ?thesis
    proof (cases "request_fields (request_body w event)")
      case (Inl e)
      then show ?thesis by (simp add: setter_handler_def schedule_request_def status_of_def)
    next
      case (Inr f)
      then obtain u b t where f: "request_fields (request_body w event) = Inr (u, b, t)"
        by (cases f) auto
      have "calls (setter_handler w event) = []"
      proof (rule ccontr)
        assume "calls (setter_handler w event) \<noteq> []"
        then obtain c where "c \<in> set (calls (setter_handler w event))"
          by (cases "calls (setter_handler w event)") auto
        then show False using that unfolding setter_handler_def
          by (auto dest!: schedule_request_calls try_schedule_calls)
      qed
      moreover have "status_of (setter_handler w event) \<noteq> Some 200"
        unfolding setter_handler_def schedule_request_status [OF f]
        using no [of u b t] by (auto split: sum.splits)
      ultimately show ?thesis by blast
    qed
  qed
  have reach: "(\<not> truthy (env_var w ''WORKER_LAMBDA_ARN'')
            \<longrightarrow> outcome (setter_handler w event) = Inr (error_creating w worker_arn_not_set)
              \<and> status_of (setter_handler w event) = Some 500)
        \<and> (truthy (env_var w ''WORKER_LAMBDA_ARN'')
            \<and> \<not> truthy (env_var w ''SCHEDULER_EXECUTION_ROLE_ARN'')
            \<longrightarrow> outcome (setter_handler w event) = Inr (error_creating w role_arn_not_set)
              \<and> status_of (setter_handler w event) = Some 500)
        \<and> (truthy (env_var w ''WORKER_LAMBDA_ARN'')
            \<and> truthy (env_var w ''SCHEDULER_EXECUTION_ROLE_ARN'')
            \<and> \<not> truthy (env_var w ''SCHEDULER_GROUP_NAME'')
            \<and> template_value w target_url = Inr printed
            \<longrightarrow> (\<exists>c. calls (setter_handler w event) = [c] \<and> GroupName c = Str ''default''))
        \<and> status_of (setter_handler w event) \<noteq> Some 400"
    if f: "request_fields (request_body w event) = Inr (target_url, target_body, schedule_time_utc)"
      and tr: "truthy target_url" "truthy target_body" "truthy schedule_time_utc"
      and p: "parseISO w schedule_time_utc = Inr (Date fire_at)"
  proof -
    note sr = schedule_request_truthy [OF f tr, of w]
    have a: "outcome (setter_handler w event) = Inr (error_creating w worker_arn_not_set)
              \<and> status_of (setter_handler w event) = Some 500"
      if "\<not> truthy (env_var w ''WORKER_LAMBDA_ARN'')"
    proof -
      from that p have "try_schedule w target_url target_body schedule_time_utc = ([], Inl worker_arn_not_set)"
        by (simp add: try_schedule_def Let_def)
      with sr show ?thesis by (simp add: setter_handler_def status_of_def status_error_creating)
    qed
    have b: "outcome (setter_handler w event) = Inr (error_creating w role_arn_not_set)
              \<and> status_of (setter_handler w event) = Some 500"
      if "truthy (env_var w ''WORKER_LAMBDA_ARN'')" "\<not> truthy (env_var w ''SCHEDULER_EXECUTION_ROLE_ARN'')"
    proof -
      from that p have "try_schedule w target_url target_body schedule_time_utc = ([], Inl role_arn_not_set)"
        by (simp add: try_schedule_def Let_def)
      with sr show ?thesis by (simp add: setter_handler_def status_of_def status_error_creating)
    qed
    have c: "\<exists>c. calls (setter_handler w event) = [c] \<and> GroupName c = Str ''default''"
      if "truthy (env_var w ''WORKER_LAMBDA_ARN'')" "truthy (env_var w ''SCHEDULER_EXECUTION_ROLE_ARN'')"
        "\<not> truthy (env_var w ''SCHEDULER_GROUP_NAME'')" "template_value w target_url = Inr printed"
    proof -
      from try_schedule_valid [OF p that(1,2,4), of target_body]
      obtain c where c: "calls (try_schedule w target_url target_body schedule_time_utc) = [c]"
        and cmd: "create_schedule_command w (scheduleName (Date_now w)) (take 19 (formatISO w fire_at))
               (env_var w ''WORKER_LAMBDA_ARN'') (env_var w ''SCHEDULER_EXECUTION_ROLE_ARN'')
               (js_or (env_var w ''SCHEDULER_GROUP_NAME'') (Str ''default''))
               target_url target_body = Inr c"
        by blast
      from command_fields(4) [OF cmd] that(3) have "GroupName c = Str ''default''"
        by (simp add: js_or_def)
      with sr c show ?thesis by (simp add: setter_handler_def)
    qed
    have d: "status_of (setter_handler w event) \<noteq> Some 400"
      unfolding setter_handler_def schedule_request_status [OF f]
      using tr by (simp split: sum.splits)
    from a b c d show ?thesis by blast
  qed
  have early: "setter_handler w event = ([], Inr (missing_parameters w))"
    if "request_fields (request_body w event) = Inr (target_url, target_body, schedule_time_utc)"
      "\<not> truthy target_url \<or> \<not> truthy target_body \<or> \<not> truthy schedule_time_utc"
    using schedule_request_falsy [OF that, of w] by (simp add: setter_handler_def)
  from fatal reach early show ?thesis by blast
qed

text \<open>
  The example request in the example world with each variable unset in turn, and a
  request without \<open>target_url\<close>.
\<close>

theorem env_defaults_and_fatal_witness:
  "request_fields (request_body (without_env ''WORKER_LAMBDA_ARN'') example_request)
     = Inr (Str ''https://example.com/hook'', Obj [(''a'', Num 1)], Str ''2030-01-01T00:00:00Z'')
   \<and> parseISO (without_env ''WORKER_LAMBDA_ARN'') (Str ''2030-01-01T00:00:00Z'') = Inr (Date 1893456000000)
   \<and> \<not> truthy (env_var (without_env ''WORKER_LAMBDA_ARN'') ''WORKER_LAMBDA_ARN'')
   \<and> calls (setter_handler (without_env ''WORKER_LAMBDA_ARN'') example_request) = []
   \<and> outcome (setter_handler (without_env ''WORKER_LAMBDA_ARN'') example_request)
       = Inr (error_creating (without_env ''WORKER_LAMBDA_ARN'') worker_arn_not_set)
   \<and> status_of (setter_handler (without_env ''WORKER_LAMBDA_ARN'') example_request) = Some 500
   \<and> truthy (env_var (without_env ''SCHEDULER_EXECUTION_ROLE_ARN'') ''WORKER_LAMBDA_ARN'')
   \<and> \<not> truthy (env_var (without_env ''SCHEDULER_EXECUTION_ROLE_ARN'') ''SCHEDULER_EXECUTION_ROLE_ARN'')
   \<and> calls (setter_handler (without_env ''SCHEDULER_EXECUTION_ROLE_ARN'') example_request) = []
   \<and> outcome (setter_handler (without_env ''SCHEDULER_EXECUTION_ROLE_ARN'') example_request)
       = Inr (error_creating (without_env ''SCHEDULER_EXECUTION_ROLE_ARN'') role_arn_not_set)
   \<and> truthy (env_var (without_env ''SCHEDULER_GROUP_NAME'') ''WORKER_LAMBDA_ARN'')
   \<and> truthy (env_var (without_env ''SCHEDULER_GROUP_NAME'') ''SCHEDULER_EXECUTION_ROLE_ARN'')
   \<and> \<not> truthy (env_var (without_env ''SCHEDULER_GROUP_NAME'') ''SCHEDULER_GROUP_NAME'')
   \<and> template_value (without_env ''SCHEDULER_GROUP_NAME'') (Str ''https://example.com/hook'')
       = Inr ''https://example.com/hook''
   \<and> map GroupName (calls (setter_handler (without_env ''SCHEDULER_GROUP_NAME'') example_request))
       = [Str ''default'']
   \<and> request_fields (request_body (without_env ''WORKER_LAMBDA_ARN'') no_url_request)
       = Inr (Undefined, Obj [(''a'', Num 1)], Str ''2030-01-01T00:00:00Z'')
   \<and> \<not> truthy Undefined
   \<and> setter_handler (without_env ''WORKER_LAMBDA_ARN'') no_url_request
       = ([], Inr (missing_parameters (without_env ''WORKER_LAMBDA_ARN'')))"
proof -
  let ?u = "Str ''https://example.com/hook''" and ?b = "Obj [(''a'', Num 1)]"
    and ?t = "Str ''2030-01-01T00:00:00Z''"
  have f: "request_fields (request_body (without_env k) example_request) = Inr (?u, ?b, ?t)" for k
    by (simp add: without_env_def example_request_def request_def request_body_def
          request_fields_def example_world_def example_parse_def)
  have p: "parseISO (without_env k) ?t = Inr (Date 1893456000000)" for k
    by (simp add: without_env_def example_world_def example_parseISO_def)
  have t: "truthy ?u \<and> truthy ?b \<and> truthy ?t"
    by simp
  have w: "\<not> truthy (env_var (without_env ''WORKER_LAMBDA_ARN'') ''WORKER_LAMBDA_ARN'')"
    by (simp add: env_var_def without_env_def example_world_def)
  have r: "truthy (env_var (without_env ''SCHEDULER_EXECUTION_ROLE_ARN'') ''WORKER_LAMBDA_ARN'')"
    "\<not> truthy (env_var (without_env ''SCHEDULER_EXECUTION_ROLE_ARN'') ''SCHEDULER_EXECUTION_ROLE_ARN'')"
    by (simp_all add: env_var_def without_env_def example_world_def example_env_def)
  have g: "truthy (env_var (without_env ''SCHEDULER_GROUP_NAME'') ''WORKER_LAMBDA_ARN'')"
    "truthy (env_var (without_env ''SCHEDULER_GROUP_NAME'') ''SCHEDULER_EXECUTION_ROLE_ARN'')"
    "\<not> truthy (env_var (without_env ''SCHEDULER_GROUP_NAME'') ''SCHEDULER_GROUP_NAME'')"
    by (simp_all add: env_var_def without_env_def example_world_def example_env_def)
  have d: "template_value (without_env ''SCHEDULER_GROUP_NAME'') ?u = Inr ''https://example.com/hook''"
    by (simp add: template_value_def)
  have n: "request_fields (request_body (without_env ''WORKER_LAMBDA_ARN'') no_url_request)
       = Inr (Undefined, ?b, ?t)"
    by (simp add: without_env_def no_url_request_def request_body_def
          request_fields_def example_world_def example_parse_def)
  from env_defaults_and_fatal [where w = "without_env ''WORKER_LAMBDA_ARN''" and event = no_url_request
      and target_url = Undefined and target_body = ?b and schedule_time_utc = ?t] n
  have m: "setter_handler (without_env ''WORKER_LAMBDA_ARN'') no_url_request
       = ([], Inr (missing_parameters (without_env ''WORKER_LAMBDA_ARN'')))"
    by simp
  note inst = env_defaults_and_fatal [where event = example_request and target_url = ?u
      and target_body = ?b and schedule_time_utc = ?t and fire_at = 1893456000000
      and printed = "''https://example.com/hook''"]
  from inst [of "without_env ''WORKER_LAMBDA_ARN''"] f p t w
  have a: "calls (setter_handler (without_env ''WORKER_LAMBDA_ARN'') example_request) = []
    \<and> outcome (setter_handler (without_env ''WORKER_LAMBDA_ARN'') example_request)
       = Inr (error_creating (without_env ''WORKER_LAMBDA_ARN'') worker_arn_not_set)
    \<and> status_of (setter_handler (without_env ''WORKER_LAMBDA_ARN'') example_request) = Some 500"
    by blast
  from inst [of "without_env ''SCHEDULER_EXECUTION_ROLE_ARN''"] f p t r
  have b: "calls (setter_handler (without_env ''SCHEDULER_EXECUTION_ROLE_ARN'') example_request) = []
    \<and> outcome (setter_handler (without_env ''SCHEDULER_EXECUTION_ROLE_ARN'') example_request)
       = Inr (error_creating (without_env ''SCHEDULER_EXECUTION_ROLE_ARN'') role_arn_not_set)"
    by blast
  from inst [of "without_env ''SCHEDULER_GROUP_NAME''"] f p t g d
  have "\<exists>c. calls (setter_handler (without_env ''SCHEDULER_GROUP_NAME'') example_request) = [c]
      \<and> GroupName c = Str ''default''"
    by blast
  then have c: "map GroupName (calls (setter_handler (without_env ''SCHEDULER_GROUP_NAME'') example_request))
       = [Str ''default'']"
    by auto
  from a b c d f m n p w r g show ?thesis
    by simp
qed

text \<open>
  Claim C9 as the specification states it (for every request a missing ARN surfaces as
  500) fails: with \<open>WORKER_LAMBDA_ARN\<close> unset, a request without \<open>target_url\<close> is
  answered 400.
\<close>

theorem missing_arn_behind_presence_check:
  "process_env (without_env ''WORKER_LAMBDA_ARN'') ''WORKER_LAMBDA_ARN'' = None
   \<and> status_of (setter_handler (without_env ''WORKER_LAMBDA_ARN'') no_url_request) = Some 400"
  by (simp add: without_env_def no_url_request_def example_defs status_of_def missing_parameters_def)

text \<open>
  Claim C10. When reading \<open>event.body\<close> or \<open>JSON.parse\<close> of it throws, the request
  is the event itself, and both versions of the handler go on with it exactly as they
  would with a parsed body. The failure to parse earns no 400 of its own: the answer is
  400 only if the event itself lacks one of the three parameters.
\<close>

theorem parse_failure_falls_back:
  assumes "get_property event ''body'' = Inl e
         \<or> (\<exists>b. get_property event ''body'' = Inr b \<and> JSON_parse w b = Inl e)"
  shows "request_body w event = event
       \<and> setter_handler w event = schedule_request w event
       \<and> setter_handler_v1 w event = schedule_request_v1 w event
       \<and> (\<forall>target_url target_body schedule_time_utc.
            request_fields event = Inr (target_url, target_body, schedule_time_utc)
            \<longrightarrow> (status_of (setter_handler w event) = Some 400
                  \<longleftrightarrow> \<not> truthy target_url \<or> \<not> truthy target_body
                      \<or> \<not> truthy schedule_time_utc))"
proof -
  from assms have r: "request_body w event = event"
    by (auto simp: request_body_def)
  have "status_of (setter_handler w event) = Some 400
      \<longleftrightarrow> \<not> truthy u \<or> \<not> truthy b \<or> \<not> truthy t"
    if "request_fields event = Inr (u, b, t)" for u b t
    unfolding setter_handler_def r schedule_request_status [OF that]
    by (simp split: sum.splits)
  with r show ?thesis
    by (simp add: setter_handler_def setter_handler_v1_def)
qed

text \<open>
  The example request has no \<open>body\<close>; \<open>JSON.parse(undefined)\<close> throws, and the
  request is scheduled and answered 200.
\<close>

theorem parse_failure_falls_back_witness:
  "get_property example_request ''body'' = Inr Undefined
   \<and> JSON_parse example_world Undefined = Inl syntax_error
   \<and> request_body example_world example_request = example_request
   \<and> setter_handler example_world example_request = schedule_request example_world example_request
   \<and> setter_handler_v1 example_world example_request = schedule_request_v1 example_world example_request
   \<and> request_fields example_request
       = Inr (Str ''https://example.com/hook'', Obj [(''a'', Num 1)], Str ''2030-01-01T00:00:00Z'')
   \<and> status_of (setter_handler example_world example_request) \<noteq> Some 400
   \<and> status_of (schedule_request example_world example_request) = Some 200"
proof -
  have g: "get_property example_request ''body'' = Inr Undefined"
    by (simp add: example_request_def request_def)
  have p: "JSON_parse example_world Undefined = Inl syntax_error"
    by (simp add: example_world_def example_parse_def)
  have f: "request_fields example_request
       = Inr (Str ''https://example.com/hook'', Obj [(''a'', Num 1)], Str ''2030-01-01T00:00:00Z'')"
    by (simp add: example_request_def request_fields_request)
  have s: "status_of (schedule_request example_world example_request) = Some 200"
    by (simp add: example_defs example_request_def status_of_def)
  from g p have "get_property example_request ''body'' = Inl syntax_error
         \<or> (\<exists>b. get_property example_request ''body'' = Inr b
                \<and> JSON_parse example_world b = Inl syntax_error)"
    by simp
  from parse_failure_falls_back [OF this] g p f s show ?thesis
    by simp
qed

end
